theory Spec2Isabelle
  imports Complex_Main
begin

section \<open>Common data: error codes, numbers, order parameters\<close>

text \<open>
  The closed error taxonomy of \<^verbatim>\<open>src/lib/errors.ts\<close> (\<^verbatim>\<open>ErrorCode\<close>). A thrown
  \<^verbatim>\<open>MakoraError\<close> is the \<open>Inl\<close> branch of a sum whose left component is its code;
  the message string is not modelled.

  JavaScript numbers that carry money, prices and units are modelled as \<open>real\<close>
  (exact arithmetic; \<^verbatim>\<open>NaN\<close>, the infinities and rounding are outside the model).
  Identifiers and millisecond timestamps are \<open>int\<close>. An optional field
  (\<^verbatim>\<open>x?: T\<close>, \<^verbatim>\<open>undefined\<close>, \<^verbatim>\<open>null\<close>) is an \<open>option\<close>.
\<close>

datatype ErrorCode =
    INVALID_INPUT
  | UNAUTHORIZED
  | FORBIDDEN
  | NOT_FOUND
  | CONFLICT
  | RATE_LIMITED
  | PROVIDER_ERROR
  | POLICY_VIOLATION
  | KILL_SWITCH_ACTIVE
  | INVALID_APPROVAL_TOKEN
  | EXPIRED_APPROVAL_TOKEN
  | MARKET_CLOSED
  | INSUFFICIENT_BUYING_POWER
  | FEATURE_DISABLED
  | NOT_SUPPORTED
  | INTERNAL_ERROR

datatype order_side = Buy | Sell

datatype order_type = Market | Limit | Stop | StopLimit

text \<open>
  \<^verbatim>\<open>OrderParams\<close> as \<^verbatim>\<open>createOrder\<close> and \<^verbatim>\<open>resolveUnits\<close> read it: the symbol,
  the optional quantity and notional, the side and the order type. Of the order type
  the code only asks whether it is \<^verbatim>\<open>"market"\<close>.
\<close>

record OrderParams =
  op_symbol :: string
  op_qty :: "real option"
  op_notional :: "real option"
  op_side :: order_side
  op_type :: order_type

text \<open>The JavaScript operator \<^verbatim>\<open>a ?? b\<close> on optional values.\<close>

definition nullish :: "'a option \<Rightarrow> 'a option \<Rightarrow> 'a option" where
  "nullish a b = (case a of Some x \<Rightarrow> Some x | None \<Rightarrow> b)"

section \<open>Rates and positions (trading provider)\<close>

text \<open>\<^verbatim>\<open>interface EtoroRate\<close>; the \<^verbatim>\<open>date\<close> string is never read and is left out.\<close>

record EtoroRate =
  rate_instrumentId :: "int option"
  rate_instrumentID :: "int option"
  ask :: "real option"
  bid :: "real option"
  lastExecution :: "real option"

text \<open>
  \<^verbatim>\<open>interface EtoroPortfolioPosition\<close> with every alias of the identifier and
  profit fields; \<^verbatim>\<open>openDateTime\<close> and \<^verbatim>\<open>leverage\<close> are never read.
\<close>

record EtoroPortfolioPosition =
  positionId :: "int option"
  positionID :: "int option"
  PositionID :: "int option"
  pp_instrumentId :: "int option"
  pp_instrumentID :: "int option"
  pp_InstrumentID :: "int option"
  isBuy :: "bool option"
  openRate :: "real option"
  closeRate :: "real option"
  amount :: "real option"
  units :: "real option"
  pnL :: "real option"
  pnl :: "real option"
  PnL :: "real option"
  pp_unrealizedPnL :: "real option"

datatype position_side = Long | Short

text \<open>
  The \<^verbatim>\<open>Position\<close> that \<^verbatim>\<open>parsePosition\<close> builds. \<^verbatim>\<open>position_id\<close> and
  \<^verbatim>\<open>asset_id\<close> are the source's strings \<^verbatim>\<open>String(id)\<close>, kept here as the number
  they print (\<open>None\<close> for \<^verbatim>\<open>undefined\<close> and for the empty string). The fields that
  are constants in the source (intraday figures, \<^verbatim>\<open>lastday_price\<close>,
  \<^verbatim>\<open>change_today\<close>) and the display fields \<^verbatim>\<open>exchange\<close> and
  \<^verbatim>\<open>asset_class\<close> are left out.
\<close>

record Position =
  position_id :: "int option"
  asset_id :: "int option"
  pos_symbol :: string
  avg_entry_price :: real
  qty :: real
  side :: position_side
  market_value :: real
  cost_basis :: real
  unrealized_pl :: real
  unrealized_plpc :: real
  current_price :: real

subsection \<open>closePosition: the units to deduct\<close>

text \<open>
  \<^verbatim>\<open>closePosition\<close>, the computation between locating the position and building
  the close request:
  \<^verbatim>\<open>
    const totalUnits = position.qty ?? 0;
    let unitsToDeduct: number | null = null;
    if (qty !== undefined) {
      unitsToDeduct = Math.min(qty, totalUnits);
    } else if (percentage !== undefined) {
      unitsToDeduct = Math.max(Math.min((percentage / 100) * totalUnits, totalUnits), 0);
    }
  \<close>
  \<open>None\<close> is the \<^verbatim>\<open>null\<close> sent as \<^verbatim>\<open>UnitsToDeduct\<close> when neither argument is given.
\<close>

definition unitsToDeduct :: "Position \<Rightarrow> real option \<Rightarrow> real option \<Rightarrow> real option" where
  "unitsToDeduct position qty_arg percentage =
     (let totalUnits = qty position in
      case qty_arg of
        Some q \<Rightarrow> Some (min q totalUnits)
      | None \<Rightarrow>
          (case percentage of
             Some p \<Rightarrow> Some (max (min ((p / 100) * totalUnits) totalUnits) 0)
           | None \<Rightarrow> None))"

text \<open>A long position of 8 units of instrument 1001, entered at 50 and now at 55.\<close>

definition examplePosition :: Position where
  "examplePosition =
     \<lparr>position_id = Some 77, asset_id = Some 1001, pos_symbol = ''AAPL'',
      avg_entry_price = 50, qty = 8, side = Long, market_value = 440, cost_basis = 400,
      unrealized_pl = 40, unrealized_plpc = 1 / 10, current_price = 55\<rparr>"

subsection \<open>resolveUnits: units from a notional amount\<close>

text \<open>
  The reference price of \<^verbatim>\<open>resolveUnits\<close>:
  \<^verbatim>\<open>
    const price = params.side === "buy" ? rate?.ask ?? rate?.lastExecution
                                        : rate?.bid ?? rate?.lastExecution;
  \<close>
  for the entry \<^verbatim>\<open>rate\<close> of the rate map (\<open>None\<close> when the map has none).
\<close>

definition referencePrice :: "order_side \<Rightarrow> EtoroRate option \<Rightarrow> real option" where
  "referencePrice sd rate =
     (case rate of
        None \<Rightarrow> None
      | Some r \<Rightarrow>
          (case sd of
             Buy \<Rightarrow> nullish (ask r) (lastExecution r)
           | Sell \<Rightarrow> nullish (bid r) (lastExecution r)))"

section \<open>The protocol client and the broker behind it\<close>

text \<open>
  What \<^verbatim>\<open>fetch\<close> can do to one request of \<^verbatim>\<open>EtoroClient.request\<close>: answer with a
  2xx status and a JSON body (\<open>Ok\<close>), answer with another status (\<open>Status\<close>), or
  reject (\<open>Failed\<close>: network failure, timeout, a body that is not JSON). An answer
  204 without a body does not occur for the requests modelled here.
\<close>

datatype 'a transport = Ok 'a | Status int | Failed

text \<open>
  An error as the callers see it: a \<^verbatim>\<open>MakoraError\<close> with its code, or any other
  exception coming out of \<^verbatim>\<open>fetch\<close>.
\<close>

datatype error = MakoraError ErrorCode | TransportFailure

text \<open>
  The status classification of \<^verbatim>\<open>EtoroClient.request\<close>:
  \<^verbatim>\<open>
    if (response.status === 401) throw createError(ErrorCode.UNAUTHORIZED, ...);
    if (response.status === 403) throw createError(ErrorCode.FORBIDDEN, ...);
    if (response.status === 404) throw createError(ErrorCode.NOT_FOUND, ...);
    if (response.status === 400 || response.status === 422) throw createError(ErrorCode.INVALID_INPUT, ...);
    if (response.status === 429) throw createError(ErrorCode.RATE_LIMITED, ...);
    throw createError(ErrorCode.PROVIDER_ERROR, ...);
  \<close>
\<close>

definition classifyStatus :: "int \<Rightarrow> ErrorCode" where
  "classifyStatus status =
     (if status = 401 then UNAUTHORIZED
      else if status = 403 then FORBIDDEN
      else if status = 404 then NOT_FOUND
      else if status = 400 \<or> status = 422 then INVALID_INPUT
      else if status = 429 then RATE_LIMITED
      else PROVIDER_ERROR)"

definition request :: "'a transport \<Rightarrow> error + 'a" where
  "request t =
     (case t of
        Ok body \<Rightarrow> Inr body
      | Status status \<Rightarrow> Inl (MakoraError (classifyStatus status))
      | Failed \<Rightarrow> Inl TransportFailure)"

text \<open>The response shapes of the endpoints the modelled operations call.\<close>

record EtoroSearchItem =
  si_instrumentId :: "int option"
  si_instrumentID :: "int option"
  internalSymbolFull :: "string option"
  symbolFull :: "string option"
  fullSymbolName :: "string option"
  displayName :: "string option"
  si_name :: "string option"

record EtoroSearchResponse =
  items :: "EtoroSearchItem list option"
  instruments_items :: "EtoroSearchItem list option"

record EtoroInstrumentDisplayData =
  dd_instrumentId :: "int option"
  dd_instrumentID :: "int option"
  instrumentDisplayName :: "string option"
  dd_instrumentTypeId :: "int option"
  dd_exchangeId :: "int option"
  dd_symbolFull :: "string option"

record EtoroMirror =
  mirror_positions :: "EtoroPortfolioPosition list option"

record ClientPortfolio =
  credit :: "real option"
  unrealizedPnL :: "real option"
  positions :: "EtoroPortfolioPosition list option"
  mirrors :: "EtoroMirror list option"

record EtoroPortfolioResponse =
  clientPortfolio :: "ClientPortfolio option"

record OrderForOpen =
  oo_orderID :: "int option"
  oo_statusID :: "int option"
  oo_instrumentID :: "int option"
  oo_amountInUnits :: "real option"

record EtoroOrderOpenResponse =
  orderForOpen :: "OrderForOpen option"

text \<open>
  The requests the transport can receive from the modelled operations, with the
  parameters that distinguish them: the search symbol, and the body of a market-open
  order (\<^verbatim>\<open>InstrumentID\<close>, \<^verbatim>\<open>IsBuy\<close>, \<^verbatim>\<open>AmountInUnits\<close>).
\<close>

datatype request =
    SearchReq string
  | RatesReq
  | InstrumentsReq
  | PortfolioReq
  | PnlReq
  | OpenOrderReq int bool real

text \<open>
  The broker (in the tests, the mocked \<^verbatim>\<open>fetch\<close>): what each request is answered
  with. The answer depends on the request only.
\<close>

record broker =
  search :: "string \<Rightarrow> EtoroSearchResponse transport"
  rates :: "EtoroRate list option transport"
  instrumentsList :: "EtoroInstrumentDisplayData list option transport"
  portfolio :: "EtoroPortfolioResponse transport"
  pnlSummary :: "EtoroPortfolioResponse transport"
  openOrder :: "int \<Rightarrow> bool \<Rightarrow> real \<Rightarrow> EtoroOrderOpenResponse transport"

section \<open>The session state\<close>

text \<open>
  The singleton row of the \<^verbatim>\<open>risk_state\<close> table (\<^verbatim>\<open>CREATE TABLE risk_state\<close>):
  timestamps are milliseconds, \<open>None\<close> is SQL \<^verbatim>\<open>NULL\<close>.
\<close>

record RiskState =
  kill_switch_active :: bool
  kill_switch_reason :: "string option"
  kill_switch_at :: "int option"
  daily_loss_usd :: real
  daily_loss_reset_at :: "int option"
  last_loss_at :: "int option"
  cooldown_until :: "int option"

record CachedInstrument =
  ci_symbol :: string
  instrumentTypeId :: "int option"
  exchangeId :: "int option"
  updatedAt :: int

text \<open>
  \<^verbatim>\<open>CacheEntry<T>\<close> together with the in-flight promise of the same resource: the
  pair of fields \<^verbatim>\<open>portfolioCache\<close>/\<^verbatim>\<open>portfolioPending\<close>, and
  \<^verbatim>\<open>ratesCache\<close>/\<^verbatim>\<open>ratesPending\<close>. \<open>entry\<close> is \<open>(data, expiresAt)\<close>. A pending
  promise is named by the number of the fetch that created it; \<open>fetches\<close> counts the
  fetches started so far (it is not a field of the source).
\<close>

record 'a slot =
  entry :: "('a \<times> int) option"
  pending :: "nat option"
  fetches :: nat

text \<open>
  One session: the objects \<^verbatim>\<open>createEtoroProviders\<close> builds together. From
  \<^verbatim>\<open>EtoroInstrumentCache\<close>: \<open>symbolToId\<close> (values \<open>(id, updatedAt)\<close>), \<open>idToMeta\<close>,
  \<open>metadataPending\<close>, \<open>allInstrumentsFetchedAt\<close>. From \<^verbatim>\<open>EtoroTradingProvider\<close>: the
  portfolio and rates slots. \<open>calls\<close> is every request handed to the client, oldest
  first; the rate limiter of the client delays a request and never refuses one, so
  these are the requests the transport receives. \<open>risk\<close> is the persisted risk state
  the session runs under.

  Every operation takes \<open>now\<close>, the reading of \<^verbatim>\<open>Date.now()\<close>, as an argument. An
  operation that is modelled as running to its end uses one reading throughout; the
  steps of the caches and of the rate limiter take one reading per synchronous step.
\<close>

record session =
  risk :: RiskState
  symbolToId :: "string \<rightharpoonup> (int \<times> int)"
  idToMeta :: "int \<rightharpoonup> CachedInstrument"
  metadataPending :: bool
  allInstrumentsFetchedAt :: int
  portfolioSlot :: "EtoroPortfolioResponse slot"
  ratesSlot :: "(int \<rightharpoonup> EtoroRate) slot"
  calls :: "request list"

definition send :: "request \<Rightarrow> session \<Rightarrow> session" where
  "send r st = st\<lparr>calls := calls st @ [r]\<rparr>"

section \<open>Strings\<close>

text \<open>
  The \<^verbatim>\<open>String\<close> methods the instrument cache uses, on ASCII text:
  \<^verbatim>\<open>toUpperCase\<close>, \<^verbatim>\<open>trim\<close>, \<^verbatim>\<open>startsWith\<close>, \<^verbatim>\<open>endsWith\<close>, \<^verbatim>\<open>includes\<close>,
  \<^verbatim>\<open>replace\<close> with a string pattern (which replaces the first occurrence only) and
  \<^verbatim>\<open>split(sep)[0]\<close>.
\<close>

definition toUpperChar :: "char \<Rightarrow> char" where
  "toUpperChar c =
     (case map_of (zip ''abcdefghijklmnopqrstuvwxyz'' ''ABCDEFGHIJKLMNOPQRSTUVWXYZ'') c of
        Some u \<Rightarrow> u
      | None \<Rightarrow> c)"

definition toUpperCase :: "string \<Rightarrow> string" where
  "toUpperCase s = map toUpperChar s"

definition isWhitespace :: "char \<Rightarrow> bool" where
  "isWhitespace c = ((of_char c :: nat) \<in> set [9, 10, 11, 12, 13, 32])"

definition trim :: "string \<Rightarrow> string" where
  "trim s = rev (dropWhile isWhitespace (rev (dropWhile isWhitespace s)))"

fun startsWith :: "string \<Rightarrow> string \<Rightarrow> bool" where
  "startsWith [] s = True"
| "startsWith (p # ps) [] = False"
| "startsWith (p # ps) (c # cs) = (p = c \<and> startsWith ps cs)"

definition endsWith :: "string \<Rightarrow> string \<Rightarrow> bool" where
  "endsWith suffix s = startsWith (rev suffix) (rev s)"

fun includesStr :: "string \<Rightarrow> string \<Rightarrow> bool" where
  "includesStr pat [] = (pat = [])"
| "includesStr pat (c # cs) = (startsWith pat (c # cs) \<or> includesStr pat cs)"

fun replaceFirst :: "string \<Rightarrow> string \<Rightarrow> string \<Rightarrow> string" where
  "replaceFirst pat rep [] = (if pat = [] then rep else [])"
| "replaceFirst pat rep (c # cs) =
     (if startsWith pat (c # cs) then rep @ drop (length pat) (c # cs)
      else c # replaceFirst pat rep cs)"

definition splitHead :: "char \<Rightarrow> string \<Rightarrow> string" where
  "splitHead sep s = takeWhile (\<lambda>c. c \<noteq> sep) s"

text \<open>\<^verbatim>\<open>Set.add\<close> on a \<^verbatim>\<open>Set\<close> kept in insertion order.\<close>

definition setAdd :: "'a list \<Rightarrow> 'a \<Rightarrow> 'a list" where
  "setAdd xs x = (if x \<in> set xs then xs else xs @ [x])"

section \<open>The instrument cache\<close>

text \<open>
  \<^verbatim>\<open>
  private buildSymbolCandidates(symbol: string): string[] {
    const candidates = new Set<string>([symbol]);
    if (symbol.includes("/")) {
      candidates.add(symbol.replace("/", ""));
      candidates.add(symbol.split("/")[0] ?? symbol);
    } else if (symbol.endsWith("USD")) {
      candidates.add(symbol.replace("USD", ""));
      candidates.add(`${symbol}/USD`);
    }
    return Array.from(candidates);
  }
  \<close>
\<close>

definition buildSymbolCandidates :: "string \<Rightarrow> string list" where
  "buildSymbolCandidates symbol =
     (if includesStr ''/'' symbol then
        setAdd (setAdd [symbol] (replaceFirst ''/'' [] symbol)) (splitHead CHR ''/'' symbol)
      else if endsWith ''USD'' symbol then
        setAdd (setAdd [symbol] (replaceFirst ''USD'' [] symbol)) (symbol @ ''/USD'')
      else [symbol])"

text \<open>\<^verbatim>\<open>isFresh\<close>, with \<^verbatim>\<open>ttlMs = 30 * 60 * 1000\<close>.\<close>

definition ttlMs :: int where
  "ttlMs = 30 * 60 * 1000"

definition isFresh :: "int \<Rightarrow> int \<Rightarrow> bool" where
  "isFresh now upd = (now - upd < ttlMs)"

definition extractItems :: "EtoroSearchResponse \<Rightarrow> EtoroSearchItem list" where
  "extractItems response =
     (case items response of
        Some xs \<Rightarrow> xs
      | None \<Rightarrow> (case instruments_items response of Some xs \<Rightarrow> xs | None \<Rightarrow> []))"

definition extractInstrumentId :: "EtoroSearchItem \<Rightarrow> int option" where
  "extractInstrumentId item = nullish (si_instrumentId item) (si_instrumentID item)"

text \<open>
  \<^verbatim>\<open>extractSymbol\<close>: the first alias that is present; \<^verbatim>\<open>value ? value.toUpperCase() : null\<close>
  gives \<^verbatim>\<open>null\<close> for the empty string too.
\<close>

definition extractSymbol :: "EtoroSearchItem \<Rightarrow> string option" where
  "extractSymbol item =
     (case nullish (internalSymbolFull item)
            (nullish (symbolFull item)
              (nullish (fullSymbolName item)
                (nullish (displayName item) (si_name item)))) of
        None \<Rightarrow> None
      | Some v \<Rightarrow> if v = [] then None else Some (toUpperCase v))"

text \<open>
  The part of \<^verbatim>\<open>searchExactSymbol\<close> after the response is there: the item whose
  symbol is the one searched, else the first item; \<^verbatim>\<open>if (!id) return null\<close> drops a
  missing identifier and the identifier 0.
\<close>

definition pickItem :: "string \<Rightarrow> EtoroSearchItem list \<Rightarrow> (int \<times> string) option" where
  "pickItem symbol its =
     (case nullish (find (\<lambda>item. extractSymbol item = Some symbol) its)
            (case its of [] \<Rightarrow> None | first # _ \<Rightarrow> Some first) of
        None \<Rightarrow> None
      | Some candidate \<Rightarrow>
          (case extractInstrumentId candidate of
             None \<Rightarrow> None
           | Some i \<Rightarrow>
               if i = 0 then None
               else Some (i, case extractSymbol candidate of Some f \<Rightarrow> f | None \<Rightarrow> symbol)))"

definition searchExactSymbol :: "broker \<Rightarrow> string \<Rightarrow> error + (int \<times> string) option" where
  "searchExactSymbol br symbol =
     (case request (search br symbol) of
        Inl e \<Rightarrow> Inl e
      | Inr response \<Rightarrow> Inr (pickItem symbol (extractItems response)))"

text \<open>
  \<^verbatim>\<open>
  private storeMapping(symbol: string, id: number, displaySymbol?: string): void {
    const normalized = symbol.toUpperCase();
    this.symbolToId.set(normalized, { id, updatedAt: Date.now() });
    if (displaySymbol) {
      this.idToMeta.set(id, { symbol: displaySymbol.toUpperCase(), updatedAt: Date.now() });
    }
  }
  \<close>
\<close>

definition storeMapping :: "int \<Rightarrow> string \<Rightarrow> int \<Rightarrow> string \<Rightarrow> session \<Rightarrow> session" where
  "storeMapping now symbol i displaySymbol st =
     (let st1 = st\<lparr>symbolToId := (symbolToId st)(toUpperCase symbol \<mapsto> (i, now))\<rparr> in
      if displaySymbol = [] then st1
      else st1\<lparr>idToMeta := (idToMeta st1)(i \<mapsto>
             \<lparr>ci_symbol = toUpperCase displaySymbol, instrumentTypeId = None,
              exchangeId = None, updatedAt = now\<rparr>)\<rparr>)"

text \<open>
  The loop of \<^verbatim>\<open>resolveInstrumentId\<close> over the candidates: one search request per
  candidate, in order; an error of the request ends the call; the first candidate with
  a match is stored and its identifier returned; with no candidate left the call fails
  with \<^verbatim>\<open>NOT_FOUND\<close>.
\<close>

fun searchCandidates :: "broker \<Rightarrow> int \<Rightarrow> string list \<Rightarrow> session \<Rightarrow> (error + int) \<times> session" where
  "searchCandidates br now [] st = (Inl (MakoraError NOT_FOUND), st)"
| "searchCandidates br now (candidate # rest) st =
     (let st1 = send (SearchReq candidate) st in
      case searchExactSymbol br candidate of
        Inl e \<Rightarrow> (Inl e, st1)
      | Inr None \<Rightarrow> searchCandidates br now rest st1
      | Inr (Some (i, found)) \<Rightarrow>
          if i \<noteq> 0 then (Inr i, storeMapping now candidate i found st1)
          else searchCandidates br now rest st1)"

text \<open>
  \<^verbatim>\<open>
  async resolveInstrumentId(symbol: string): Promise<number> {
    const normalized = symbol.trim().toUpperCase();
    const cached = this.symbolToId.get(normalized);
    if (cached && this.isFresh(cached.updatedAt)) {
      return cached.id;
    }
    const candidates = this.buildSymbolCandidates(normalized);
    for (const candidate of candidates) { ... }
    throw createError(ErrorCode.NOT_FOUND, `Unknown symbol ${symbol}`);
  }
  \<close>
  \<open>now\<close> is the reading of \<^verbatim>\<open>Date.now()\<close> during the call (one reading per call).
\<close>

definition resolveInstrumentId :: "broker \<Rightarrow> int \<Rightarrow> string \<Rightarrow> session \<Rightarrow> (error + int) \<times> session" where
  "resolveInstrumentId br now symbol st =
     (let normalized = toUpperCase (trim symbol) in
      case symbolToId st normalized of
        Some (i, upd) \<Rightarrow>
          if isFresh now upd then (Inr i, st)
          else searchCandidates br now (buildSymbolCandidates normalized) st
      | None \<Rightarrow> searchCandidates br now (buildSymbolCandidates normalized) st)"

text \<open>
  \<^verbatim>\<open>resolveInstrumentId\<close> as concurrent callers run it, one synchronous step at a
  time. The first step reads the cache and, on a miss, hands the search for the first
  candidate to the client; there the call is suspended
  (\<^verbatim>\<open>await this.searchExactSymbol(candidate)\<close>). Each later step runs when that
  search settles: a match is stored and returned, an error leaves the call, and
  otherwise the search for the next candidate is handed over. The class has no field
  for a search in flight: \<open>symbolToId\<close> is written by \<^verbatim>\<open>storeMapping\<close> only, after a
  match.

  \<open>Searching c rest\<close>: the call waits for the search of \<open>c\<close> and has the candidates
  \<open>rest\<close> left.
\<close>

datatype resolve_step = Done "error + int" | Searching string "string list"

definition searchNext :: "string list \<Rightarrow> session \<Rightarrow> resolve_step \<times> session" where
  "searchNext candidates st =
     (case candidates of
        [] \<Rightarrow> (Done (Inl (MakoraError NOT_FOUND)), st)
      | candidate # rest \<Rightarrow> (Searching candidate rest, send (SearchReq candidate) st))"

definition resolveInstrumentIdStart :: "int \<Rightarrow> string \<Rightarrow> session \<Rightarrow> resolve_step \<times> session" where
  "resolveInstrumentIdStart now symbol st =
     (let normalized = toUpperCase (trim symbol) in
      case symbolToId st normalized of
        Some (i, upd) \<Rightarrow>
          if isFresh now upd then (Done (Inr i), st)
          else searchNext (buildSymbolCandidates normalized) st
      | None \<Rightarrow> searchNext (buildSymbolCandidates normalized) st)"

definition searchSettled :: "broker \<Rightarrow> int \<Rightarrow> string \<Rightarrow> string list \<Rightarrow> session \<Rightarrow> resolve_step \<times> session" where
  "searchSettled br now candidate rest st =
     (case searchExactSymbol br candidate of
        Inl e \<Rightarrow> (Done (Inl e), st)
      | Inr None \<Rightarrow> searchNext rest st
      | Inr (Some (i, found)) \<Rightarrow>
          if i \<noteq> 0 then (Done (Inr i), storeMapping now candidate i found st)
          else searchNext rest st)"

text \<open>A call that is resumed, step after step, until it is over.\<close>

function resolveFinish :: "broker \<Rightarrow> int \<Rightarrow> resolve_step \<times> session \<Rightarrow> (error + int) \<times> session" where
  "resolveFinish br now (Done r, st) = (r, st)"
| "resolveFinish br now (Searching candidate rest, st) =
     resolveFinish br now (searchSettled br now candidate rest st)"
  by pat_completeness auto
termination
  by (relation "measure (\<lambda>(br, now, step, st).
                  case step of Done r \<Rightarrow> 0 | Searching candidate rest \<Rightarrow> Suc (length rest))")
     (auto simp: searchSettled_def searchNext_def
           split: sum.splits option.splits list.splits if_splits)

section \<open>The trading provider\<close>

subsection \<open>Short-lived caches with in-flight deduplication\<close>

text \<open>
  \<^verbatim>\<open>getCachedPortfolio\<close> and \<^verbatim>\<open>getCachedRates\<close> share one shape:
  \<^verbatim>\<open>
    const now = Date.now();
    if (this.portfolioCache && now < this.portfolioCache.expiresAt) {
      return Promise.resolve(this.portfolioCache.data);
    }
    if (this.portfolioPending) {
      return this.portfolioPending;
    }
    this.portfolioPending = this.client.tradingRequest(...)
      .then((data) => {
        this.portfolioCache = { data, expiresAt: Date.now() + PORTFOLIO_CACHE_TTL_MS };
        this.portfolioPending = null;
        return data;
      })
      .catch((err) => { this.portfolioPending = null; throw err; });
    return this.portfolioPending;
  \<close>
  The call is one synchronous step (\<open>slotGet\<close>): the caller gets the cached data or a
  pending promise, and a fetch is started when neither is there. The handlers run as a
  second step when the fetch settles (\<open>slotSettled\<close>).
\<close>

datatype 'a cache_reply = Cached 'a | Pending nat

definition CACHE_TTL_MS :: int where
  "CACHE_TTL_MS = 15000"

definition slotJoinOrStart :: "'a slot \<Rightarrow> 'a cache_reply \<times> bool \<times> 'a slot" where
  "slotJoinOrStart s =
     (case pending s of
        Some p \<Rightarrow> (Pending p, False, s)
      | None \<Rightarrow>
          (let n = Suc (fetches s) in (Pending n, True, s\<lparr>pending := Some n, fetches := n\<rparr>)))"

text \<open>The reply, whether a fetch was started, and the slot afterwards.\<close>

definition slotGet :: "int \<Rightarrow> 'a slot \<Rightarrow> 'a cache_reply \<times> bool \<times> 'a slot" where
  "slotGet now s =
     (case entry s of
        Some (d, expiresAt) \<Rightarrow> if now < expiresAt then (Cached d, False, s) else slotJoinOrStart s
      | None \<Rightarrow> slotJoinOrStart s)"

text \<open>The \<^verbatim>\<open>.then\<close> handler (\<open>Inr\<close>) and the \<^verbatim>\<open>.catch\<close> handler (\<open>Inl\<close>).\<close>

definition slotSettled :: "int \<Rightarrow> error + 'a \<Rightarrow> 'a slot \<Rightarrow> 'a slot" where
  "slotSettled now outcome s =
     (case outcome of
        Inr d \<Rightarrow> s\<lparr>entry := Some (d, now + CACHE_TTL_MS), pending := None\<rparr>
      | Inl err \<Rightarrow> s\<lparr>pending := None\<rparr>)"

definition getCachedPortfolio :: "int \<Rightarrow> session \<Rightarrow> EtoroPortfolioResponse cache_reply \<times> session" where
  "getCachedPortfolio now st =
     (case slotGet now (portfolioSlot st) of
        (reply, started, s') \<Rightarrow>
          (reply, if started then send PortfolioReq (st\<lparr>portfolioSlot := s'\<rparr>)
                  else st\<lparr>portfolioSlot := s'\<rparr>))"

text \<open>
  The portfolio request in flight settles at time \<open>now\<close> with the answer \<open>t\<close> of the
  transport. Nothing happens when no request is in flight.
\<close>

definition portfolioSettled :: "int \<Rightarrow> EtoroPortfolioResponse transport \<Rightarrow> session \<Rightarrow> session" where
  "portfolioSettled now t st =
     (case pending (portfolioSlot st) of
        None \<Rightarrow> st
      | Some p \<Rightarrow> st\<lparr>portfolioSlot := slotSettled now (request t) (portfolioSlot st)\<rparr>)"

text \<open>
  \<^verbatim>\<open>fetchAllRates\<close>: the request is inside \<^verbatim>\<open>try { ... } catch { }\<close>, so the function
  returns the map built from \<^verbatim>\<open>response.rates ?? []\<close>, or the empty map when the
  request failed; it never rejects.
\<close>

definition ratesMap :: "EtoroRate list \<Rightarrow> (int \<rightharpoonup> EtoroRate)" where
  "ratesMap rs =
     foldl (\<lambda>m r. case nullish (rate_instrumentId r) (rate_instrumentID r) of
                     Some i \<Rightarrow> m(i \<mapsto> r)
                   | None \<Rightarrow> m) Map.empty rs"

definition fetchAllRates :: "EtoroRate list option transport \<Rightarrow> (int \<rightharpoonup> EtoroRate)" where
  "fetchAllRates t =
     (case request t of
        Inr rs \<Rightarrow> ratesMap (case rs of Some l \<Rightarrow> l | None \<Rightarrow> [])
      | Inl err \<Rightarrow> Map.empty)"

definition getCachedRates :: "int \<Rightarrow> session \<Rightarrow> (int \<rightharpoonup> EtoroRate) cache_reply \<times> session" where
  "getCachedRates now st =
     (case slotGet now (ratesSlot st) of
        (reply, started, s') \<Rightarrow>
          (reply, if started then send RatesReq (st\<lparr>ratesSlot := s'\<rparr>)
                  else st\<lparr>ratesSlot := s'\<rparr>))"

text \<open>
  The rates request in flight settles with the answer \<open>t\<close>: the promise of
  \<^verbatim>\<open>fetchAllRates\<close> is fulfilled with its map, and the handlers of
  \<^verbatim>\<open>getCachedRates\<close> run on that.
\<close>

definition ratesSettled :: "int \<Rightarrow> EtoroRate list option transport \<Rightarrow> session \<Rightarrow> session" where
  "ratesSettled now t st =
     (case pending (ratesSlot st) of
        None \<Rightarrow> st
      | Some p \<Rightarrow> st\<lparr>ratesSlot := slotSettled now (Inr (fetchAllRates t)) (ratesSlot st)\<rparr>)"

text \<open>
  \<^verbatim>\<open>await this.getCachedPortfolio()\<close> and \<^verbatim>\<open>await this.getCachedRates()\<close> in a call
  that runs to its end: the caller gets the cached data, or waits for the request in
  flight (its own or another caller's), which the broker answers.
\<close>

definition awaitPortfolio :: "broker \<Rightarrow> int \<Rightarrow> session \<Rightarrow> (error + EtoroPortfolioResponse) \<times> session" where
  "awaitPortfolio br now st =
     (case getCachedPortfolio now st of
        (Cached d, st1) \<Rightarrow> (Inr d, st1)
      | (Pending p, st1) \<Rightarrow> (request (portfolio br), portfolioSettled now (portfolio br) st1))"

definition awaitRates :: "broker \<Rightarrow> int \<Rightarrow> session \<Rightarrow> (error + (int \<rightharpoonup> EtoroRate)) \<times> session" where
  "awaitRates br now st =
     (case getCachedRates now st of
        (Cached d, st1) \<Rightarrow> (Inr d, st1)
      | (Pending p, st1) \<Rightarrow> (Inr (fetchAllRates (rates br)), ratesSettled now (rates br) st1))"

subsection \<open>createOrder\<close>

text \<open>
  \<^verbatim>\<open>
    if (!price || price <= 0) {
      throw createError(ErrorCode.PROVIDER_ERROR, "Unable to compute units for order (missing price)");
    }
    return params.notional / price;
  \<close>
\<close>

definition unitsAtPrice :: "real \<Rightarrow> real option \<Rightarrow> error + real" where
  "unitsAtPrice notional price =
     (case price of
        None \<Rightarrow> Inl (MakoraError PROVIDER_ERROR)
      | Some p \<Rightarrow> if p \<le> 0 then Inl (MakoraError PROVIDER_ERROR) else Inr (notional / p))"

text \<open>
  \<^verbatim>\<open>
  private async resolveUnits(instrumentId: number, params: OrderParams): Promise<number> {
    if (params.qty !== undefined) {
      return params.qty;
    }
    if (params.notional === undefined) {
      throw createError(ErrorCode.INVALID_INPUT, "Order must include qty or notional");
    }
    const rateMap = await this.getCachedRates();
    const rate = rateMap.get(instrumentId);
    const price = ...
  \<close>
\<close>

definition resolveUnits :: "broker \<Rightarrow> int \<Rightarrow> int \<Rightarrow> OrderParams \<Rightarrow> session \<Rightarrow> (error + real) \<times> session" where
  "resolveUnits br now instrumentId params st =
     (case op_qty params of
        Some q \<Rightarrow> (Inr q, st)
      | None \<Rightarrow>
          (case op_notional params of
             None \<Rightarrow> (Inl (MakoraError INVALID_INPUT), st)
           | Some n \<Rightarrow>
               (case awaitRates br now st of
                  (Inl e, st1) \<Rightarrow> (Inl e, st1)
                | (Inr rateMap, st1) \<Rightarrow>
                    (unitsAtPrice n (referencePrice (op_side params) (rateMap instrumentId)), st1))))"

datatype OrderStatus = New | Accepted | Filled | Canceled

definition mapStatus :: "int option \<Rightarrow> OrderStatus" where
  "mapStatus statusId =
     (case statusId of
        None \<Rightarrow> New
      | Some c \<Rightarrow> if c = 1 then Accepted else if c = 2 then Filled
                  else if c = 3 then Canceled else New)"

text \<open>
  The \<^verbatim>\<open>Order\<close> that \<^verbatim>\<open>mapOpenOrder\<close> builds, without its constant fields and
  timestamps. \<open>ord_id\<close> is \<open>None\<close> for the synthetic \<^verbatim>\<open>open-<timestamp>\<close> identifier
  used when the broker sent no order identifier (or 0).
\<close>

record Order =
  ord_id :: "int option"
  ord_symbol :: string
  ord_asset_id :: int
  ord_qty :: real
  ord_type :: order_type
  ord_side :: order_side
  ord_status :: OrderStatus

definition mapOpenOrder :: "OrderParams \<Rightarrow> int \<Rightarrow> EtoroOrderOpenResponse \<Rightarrow> Order" where
  "mapOpenOrder params instrumentId response =
     (let orderID = (case orderForOpen response of None \<Rightarrow> None | Some ord \<Rightarrow> oo_orderID ord);
          statusID = (case orderForOpen response of None \<Rightarrow> None | Some ord \<Rightarrow> oo_statusID ord);
          instrumentID = (case orderForOpen response of None \<Rightarrow> None | Some ord \<Rightarrow> oo_instrumentID ord);
          amountInUnits = (case orderForOpen response of None \<Rightarrow> None | Some ord \<Rightarrow> oo_amountInUnits ord)
      in \<lparr>ord_id = (case orderID of None \<Rightarrow> None | Some i \<Rightarrow> if i = 0 then None else Some i),
          ord_symbol = toUpperCase (op_symbol params),
          ord_asset_id = (case instrumentID of Some i \<Rightarrow> i | None \<Rightarrow> instrumentId),
          ord_qty = (case nullish amountInUnits (op_qty params) of Some q \<Rightarrow> q | None \<Rightarrow> 0),
          ord_type = op_type params,
          ord_side = op_side params,
          ord_status = mapStatus statusID\<rparr>)"

text \<open>
  \<^verbatim>\<open>
  async createOrder(params: OrderParams): Promise<Order> {
    if (params.type !== "market") {
      throw createError(ErrorCode.NOT_SUPPORTED, `eToro only supports market orders right now`);
    }
    const env = this.client.getEnvironment();
    const instrumentId = await this.instruments.resolveInstrumentId(params.symbol);
    const units = await this.resolveUnits(instrumentId, params);
    const response = await this.client.tradingRequest<EtoroOrderOpenResponse>(
      "POST", `/trading/execution/${env}/market-open-orders/by-units`,
      { body: { InstrumentID: instrumentId, IsBuy: params.side === "buy", Leverage: 1,
                AmountInUnits: units, ... } });
    return this.mapOpenOrder(params, instrumentId, response);
  }
  \<close>
  The session passed in carries the risk state; the function body is the source's.
\<close>

definition createOrder :: "broker \<Rightarrow> int \<Rightarrow> OrderParams \<Rightarrow> session \<Rightarrow> (error + Order) \<times> session" where
  "createOrder br now params st =
     (if op_type params \<noteq> Market then (Inl (MakoraError NOT_SUPPORTED), st)
      else
        case resolveInstrumentId br now (op_symbol params) st of
          (Inl e, st1) \<Rightarrow> (Inl e, st1)
        | (Inr instrumentId, st1) \<Rightarrow>
            (case resolveUnits br now instrumentId params st1 of
               (Inl e, st2) \<Rightarrow> (Inl e, st2)
             | (Inr amountInUnits, st2) \<Rightarrow>
                 (let isBuyFlag = (op_side params = Buy);
                      st3 = send (OpenOrderReq instrumentId isBuyFlag amountInUnits) st2
                  in case request (openOrder br instrumentId isBuyFlag amountInUnits) of
                       Inl e \<Rightarrow> (Inl e, st3)
                     | Inr response \<Rightarrow> (Inr (mapOpenOrder params instrumentId response), st3))))"

text \<open>
  Callers that arrive one after the other at the times given, with no request
  settling in between: each call of \<^verbatim>\<open>getCachedPortfolio\<close> or \<^verbatim>\<open>getCachedRates\<close>
  is a synchronous step, so this is how concurrent callers interleave. The result is the
  reply to each caller, in order, and the session after the last.
\<close>

fun callers :: "(int \<Rightarrow> session \<Rightarrow> 'r \<times> session) \<Rightarrow> int list \<Rightarrow> session \<Rightarrow> 'r list \<times> session" where
  "callers get [] st = ([], st)"
| "callers get (t # ts) st =
     (case get t st of
        (reply, st1) \<Rightarrow>
          (case callers get ts st1 of (replies, st2) \<Rightarrow> (reply # replies, st2)))"

subsection \<open>Instrument metadata\<close>

text \<open>\<^verbatim>\<open>String(id)\<close> for an integer identifier.\<close>

fun digitsOf :: "nat \<Rightarrow> string" where
  "digitsOf n =
     (if n < 10 then [''0123456789'' ! n]
      else digitsOf (n div 10) @ [''0123456789'' ! (n mod 10)])"

declare digitsOf.simps [simp del]

definition numberToString :: "int \<Rightarrow> string" where
  "numberToString i = (if i < 0 then CHR ''-'' # digitsOf (nat (- i)) else digitsOf (nat i))"

definition ALL_INSTRUMENTS_CACHE_TTL_MS :: int where
  "ALL_INSTRUMENTS_CACHE_TTL_MS = 60000"

text \<open>\<^verbatim>\<open>Array.from(new Set(instrumentIds))\<close>: first occurrences, in order.\<close>

definition uniqueIds :: "int list \<Rightarrow> int list" where
  "uniqueIds xs = foldl setAdd [] xs"

text \<open>The entry of \<open>idToMeta\<close> when it is there and fresh.\<close>

definition freshMeta :: "int \<Rightarrow> session \<Rightarrow> int \<Rightarrow> CachedInstrument option" where
  "freshMeta now st i =
     (case idToMeta st i of
        Some m \<Rightarrow> if isFresh now (updatedAt m) then Some m else None
      | None \<Rightarrow> None)"

text \<open>
  The record \<^verbatim>\<open>fetchInstrumentMetadata\<close> builds for one item of the directory:
  \<^verbatim>\<open>item.symbolFull?.toUpperCase() ?? item.instrumentDisplayName?.toUpperCase() ?? String(id)\<close>.
\<close>

definition displayMeta :: "int \<Rightarrow> int \<Rightarrow> EtoroInstrumentDisplayData \<Rightarrow> CachedInstrument" where
  "displayMeta now i item =
     \<lparr>ci_symbol = (case dd_symbolFull item of
                     Some f \<Rightarrow> toUpperCase f
                   | None \<Rightarrow> (case instrumentDisplayName item of
                                Some d \<Rightarrow> toUpperCase d
                              | None \<Rightarrow> numberToString i)),
      instrumentTypeId = dd_instrumentTypeId item,
      exchangeId = dd_exchangeId item,
      updatedAt = now\<rparr>"

definition storeDisplayData ::
  "int \<Rightarrow> EtoroInstrumentDisplayData list \<Rightarrow> (int \<rightharpoonup> CachedInstrument) \<Rightarrow> (int \<rightharpoonup> CachedInstrument)" where
  "storeDisplayData now its m =
     foldl (\<lambda>acc item. case nullish (dd_instrumentId item) (dd_instrumentID item) of
                          None \<Rightarrow> acc
                        | Some i \<Rightarrow> acc(i \<mapsto> displayMeta now i item)) m its"

text \<open>
  \<^verbatim>\<open>fetchInstrumentMetadata\<close> once the unfiltered directory request is answered: every
  item with an identifier goes into \<open>idToMeta\<close> and into the returned map; a failed
  request is swallowed and gives the empty map.
\<close>

definition fetchInstrumentMetadata ::
  "int \<Rightarrow> EtoroInstrumentDisplayData list option transport \<Rightarrow> session
     \<Rightarrow> (int \<rightharpoonup> CachedInstrument) \<times> session" where
  "fetchInstrumentMetadata now t st =
     (case request t of
        Inl err \<Rightarrow> (Map.empty, st)
      | Inr body \<Rightarrow>
          (let its = (case body of Some l \<Rightarrow> l | None \<Rightarrow> [])
           in (storeDisplayData now its Map.empty,
               st\<lparr>idToMeta := storeDisplayData now its (idToMeta st)\<rparr>)))"

text \<open>
  The synchronous start of \<^verbatim>\<open>resolveMetadata\<close>:
  \<^verbatim>\<open>
    const allInstrumentsFresh = Date.now() - this.allInstrumentsFetchedAt < ALL_INSTRUMENTS_CACHE_TTL_MS;
    if (missing > 0 && !allInstrumentsFresh) {
      if (this.metadataPending) { fetched = await this.metadataPending; }
      else { this.metadataPending = this.fetchInstrumentMetadata(uniqueIds).then(...)...; }
  \<close>
  The result says whether the caller waits for a directory fetch, its own or the one
  in flight.
\<close>

definition resolveMetadataStart :: "int \<Rightarrow> int list \<Rightarrow> session \<Rightarrow> bool \<times> session" where
  "resolveMetadataStart now instrumentIds st =
     (let missing = length (filter (\<lambda>i. freshMeta now st i = None) (uniqueIds instrumentIds));
          allInstrumentsFresh = (now - allInstrumentsFetchedAt st < ALL_INSTRUMENTS_CACHE_TTL_MS)
      in if missing > 0 \<and> \<not> allInstrumentsFresh then
           (if metadataPending st then (True, st)
            else (True, send InstrumentsReq (st\<lparr>metadataPending := True\<rparr>)))
         else (False, st))"

text \<open>
  The directory request settles: \<^verbatim>\<open>fetchInstrumentMetadata\<close> finishes and the
  \<^verbatim>\<open>.then\<close> handler stamps \<open>allInstrumentsFetchedAt\<close> and clears the marker.
\<close>

definition metadataSettled ::
  "int \<Rightarrow> EtoroInstrumentDisplayData list option transport \<Rightarrow> session
     \<Rightarrow> (int \<rightharpoonup> CachedInstrument) \<times> session" where
  "metadataSettled now t st =
     (case fetchInstrumentMetadata now t st of
        (fetched, st1) \<Rightarrow> (fetched, st1\<lparr>allInstrumentsFetchedAt := now, metadataPending := False\<rparr>))"

text \<open>\<^verbatim>\<open>resolveMetadata\<close> in a call that runs to its end.\<close>

definition resolveMetadata ::
  "broker \<Rightarrow> int \<Rightarrow> int list \<Rightarrow> session \<Rightarrow> (int \<rightharpoonup> CachedInstrument) \<times> session" where
  "resolveMetadata br now instrumentIds st =
     (let ids = uniqueIds instrumentIds;
          result = (\<lambda>i. if i \<in> set ids then freshMeta now st i else None)
      in case resolveMetadataStart now instrumentIds st of
           (False, st1) \<Rightarrow> (result, st1)
         | (True, st1) \<Rightarrow>
             (case metadataSettled now (instrumentsList br) st1 of
                (fetched, st2) \<Rightarrow>
                  ((\<lambda>i. if i \<in> set ids
                         then (case nullish (fetched i) (idToMeta st2 i) of
                                 Some m \<Rightarrow> Some m
                               | None \<Rightarrow> result i)
                         else None), st2)))"

text \<open>
  Callers of \<^verbatim>\<open>resolveMetadata\<close> that arrive one after the other, each with its time
  and its identifiers, while no directory request settles: for each caller, whether
  it waits for a directory fetch.
\<close>

fun metadataCallers :: "(int \<times> int list) list \<Rightarrow> session \<Rightarrow> bool list \<times> session" where
  "metadataCallers [] st = ([], st)"
| "metadataCallers ((t, instrumentIds) # rest) st =
     (case resolveMetadataStart t instrumentIds st of
        (waits, st1) \<Rightarrow>
          (case metadataCallers rest st1 of (ws, st2) \<Rightarrow> (waits # ws, st2)))"

text \<open>The identifiers of a caller that have no fresh entry in \<open>idToMeta\<close>.\<close>

definition missingIds :: "int \<Rightarrow> session \<Rightarrow> int list \<Rightarrow> int list" where
  "missingIds now st instrumentIds =
     filter (\<lambda>i. freshMeta now st i = None) (uniqueIds instrumentIds)"

subsection \<open>Positions and the account\<close>

definition getInstrumentId :: "EtoroPortfolioPosition \<Rightarrow> int option" where
  "getInstrumentId record =
     nullish (pp_instrumentId record) (nullish (pp_instrumentID record) (pp_InstrumentID record))"

definition getPositionId :: "EtoroPortfolioPosition \<Rightarrow> int option" where
  "getPositionId position =
     nullish (positionId position) (nullish (positionID position) (PositionID position))"

text \<open>
  \<^verbatim>\<open>
  private dedupePositions(positions) {
    const seen = new Set<number>();
    return positions.filter((pos) => {
      const id = this.getPositionId(pos);
      if (!id) return true;
      if (seen.has(id)) return false;
      seen.add(id);
      return true;
    });
  }
  \<close>
\<close>

fun dedupeFrom :: "int list \<Rightarrow> EtoroPortfolioPosition list \<Rightarrow> EtoroPortfolioPosition list" where
  "dedupeFrom seen [] = []"
| "dedupeFrom seen (pos # rest) =
     (case getPositionId pos of
        None \<Rightarrow> pos # dedupeFrom seen rest
      | Some i \<Rightarrow>
          if i = 0 then pos # dedupeFrom seen rest
          else if i \<in> set seen then dedupeFrom seen rest
          else pos # dedupeFrom (i # seen) rest)"

definition dedupePositions :: "EtoroPortfolioPosition list \<Rightarrow> EtoroPortfolioPosition list" where
  "dedupePositions ps = dedupeFrom [] ps"

text \<open>
  \<^verbatim>\<open>collectPositions\<close>: the positions of the portfolio, then those of every mirror
  that has any, deduplicated.
\<close>

definition collectPositions :: "EtoroPortfolioResponse \<Rightarrow> EtoroPortfolioPosition list" where
  "collectPositions response =
     (let own = (case clientPortfolio response of
                   None \<Rightarrow> []
                 | Some cp \<Rightarrow> (case positions cp of Some l \<Rightarrow> l | None \<Rightarrow> []));
          ms = (case clientPortfolio response of
                  None \<Rightarrow> []
                | Some cp \<Rightarrow> (case mirrors cp of Some l \<Rightarrow> l | None \<Rightarrow> []))
      in dedupePositions
           (own @ concat (map (\<lambda>mirror. case mirror_positions mirror of
                                           Some l \<Rightarrow> l
                                         | None \<Rightarrow> []) ms)))"

text \<open>
  \<^verbatim>\<open>parsePosition(position, meta, rate)\<close>:
  \<^verbatim>\<open>
    const qty = position.units ?? 0;
    const openRate = position.openRate ?? 0;
    const rateCandidate = rate?.lastExecution ?? rate?.bid ?? rate?.ask ?? null;
    const ratePrice = rateCandidate && rateCandidate > 0 ? rateCandidate : null;
    const currentPrice = position.closeRate ?? ratePrice ?? openRate;
    const marketValue = currentPrice * qty;
    const costBasis = position.amount ?? (openRate * qty);
    const side = position.isBuy === false ? "short" : "long";
    const rawPnL = position.pnL ?? position.pnl ?? position.PnL ?? position.unrealizedPnL ?? null;
    const computedPnL = (currentPrice - openRate) * qty * (side === "short" ? -1 : 1);
    const pnl = rawPnL ?? computedPnL;
  \<close>
\<close>

definition orElse :: "'a option \<Rightarrow> 'a \<Rightarrow> 'a" where
  "orElse a d = (case a of Some x \<Rightarrow> x | None \<Rightarrow> d)"

definition parsePosition ::
  "EtoroPortfolioPosition \<Rightarrow> CachedInstrument option \<Rightarrow> EtoroRate option \<Rightarrow> Position" where
  "parsePosition position meta rate =
     (let instrumentId = getInstrumentId position;
          posId = getPositionId position;
          sym = (case meta of
                   Some m \<Rightarrow> ci_symbol m
                 | None \<Rightarrow> (case instrumentId of
                              Some i \<Rightarrow> if i \<noteq> 0 then numberToString i else ''UNKNOWN''
                            | None \<Rightarrow> ''UNKNOWN''));
          q = orElse (units position) 0;
          opening = orElse (openRate position) 0;
          rateCandidate = (case rate of
                             None \<Rightarrow> None
                           | Some r \<Rightarrow> nullish (lastExecution r) (nullish (bid r) (ask r)));
          ratePrice = (case rateCandidate of
                         Some c \<Rightarrow> if c > 0 then Some c else None
                       | None \<Rightarrow> None);
          currentPrice = orElse (nullish (closeRate position) ratePrice) opening;
          marketValue = currentPrice * q;
          costBasis = orElse (amount position) (opening * q);
          sd = (if isBuy position = Some False then Short else Long);
          rawPnL = nullish (pnL position) (nullish (pnl position)
                     (nullish (PnL position) (pp_unrealizedPnL position)));
          computedPnL = (currentPrice - opening) * q * (if sd = Short then - 1 else 1);
          profit = orElse rawPnL computedPnL
      in \<lparr>position_id = (case posId of Some i \<Rightarrow> if i \<noteq> 0 then Some i else None | None \<Rightarrow> None),
          asset_id = instrumentId,
          pos_symbol = sym,
          avg_entry_price = opening,
          qty = q,
          side = sd,
          market_value = marketValue,
          cost_basis = costBasis,
          unrealized_pl = profit,
          unrealized_plpc = (if costBasis \<noteq> 0 then profit / costBasis else 0),
          current_price = currentPrice\<rparr>)"

text \<open>
  The \<^verbatim>\<open>Account\<close> of \<^verbatim>\<open>getAccount\<close>, its figures only: \<^verbatim>\<open>cash\<close>, the buying
  powers (all the credit), \<^verbatim>\<open>equity\<close>, \<^verbatim>\<open>last_equity\<close> and \<^verbatim>\<open>portfolio_value\<close>
  (all the equity), and \<^verbatim>\<open>long_market_value\<close>.
\<close>

record Account =
  cash :: real
  buying_power :: real
  equity :: real
  last_equity :: real
  long_market_value :: real
  portfolio_value :: real

definition makeAccount :: "real \<Rightarrow> real \<Rightarrow> real \<Rightarrow> Account" where
  "makeAccount cr eq lmv =
     \<lparr>cash = cr, buying_power = cr, equity = eq, last_equity = eq,
      long_market_value = lmv, portfolio_value = eq\<rparr>"

definition creditOf :: "EtoroPortfolioResponse \<Rightarrow> real" where
  "creditOf response = (case clientPortfolio response of None \<Rightarrow> 0 | Some cp \<Rightarrow> orElse (credit cp) 0)"

definition unrealizedPnLOf :: "EtoroPortfolioResponse \<Rightarrow> real" where
  "unrealizedPnLOf response =
     (case clientPortfolio response of None \<Rightarrow> 0 | Some cp \<Rightarrow> orElse (unrealizedPnL cp) 0)"

text \<open>
  The positions of the primary path of \<^verbatim>\<open>getAccount\<close>, parsed with the metadata and
  the rate of their instrument (\<^verbatim>\<open>instrumentId ? meta.get(instrumentId) : undefined\<close>).
\<close>

definition parseAll ::
  "(int \<rightharpoonup> CachedInstrument) \<Rightarrow> (int \<rightharpoonup> EtoroRate) \<Rightarrow> EtoroPortfolioPosition list \<Rightarrow> Position list" where
  "parseAll meta rateMap rawPositions =
     map (\<lambda>pos. case getInstrumentId pos of
                   Some i \<Rightarrow> if i \<noteq> 0 then parsePosition pos (meta i) (rateMap i)
                             else parsePosition pos None None
                 | None \<Rightarrow> parsePosition pos None None) rawPositions"

text \<open>
  \<^verbatim>\<open>
  async getAccount(): Promise<Account> {
    ...
    try {
      const response = await this.getCachedPortfolio();
      credit = response.clientPortfolio?.credit ?? 0;
      const rawPositions = this.collectPositions(response);
      const instrumentIds = [...new Set(rawPositions.map(...).filter(...))];
      let meta = new Map();
      try { meta = await this.instruments.resolveMetadata(instrumentIds); } catch { meta = new Map(); }
      let rates = new Map();
      try { rates = await this.getCachedRates(instrumentIds); } catch { rates = new Map(); }
      const positions = rawPositions.map(...);
      longMarketValue = positions.reduce((sum, pos) => sum + (pos.market_value ?? 0), 0);
      equity = credit + longMarketValue;
    } catch {
      const response = await this.client.tradingRequest("GET", `/trading/info/${env}/pnl`);
      credit = response.clientPortfolio?.credit ?? 0;
      const unrealizedPnL = response.clientPortfolio?.unrealizedPnL ?? 0;
      equity = credit + unrealizedPnL;
      longMarketValue = Math.max(equity - credit, 0);
    }
    return { ..., cash: credit, equity, long_market_value: longMarketValue, ... };
  }
  \<close>
  The request of the \<^verbatim>\<open>catch\<close> block is not itself guarded: its error leaves the
  function.
\<close>

definition getAccount :: "broker \<Rightarrow> int \<Rightarrow> session \<Rightarrow> (error + Account) \<times> session" where
  "getAccount br now st =
     (case awaitPortfolio br now st of
        (Inr response, st1) \<Rightarrow>
          (let cr = creditOf response;
               rawPositions = collectPositions response;
               instrumentIds = uniqueIds (List.map_filter getInstrumentId rawPositions)
           in case resolveMetadata br now instrumentIds st1 of
                (meta, st2) \<Rightarrow>
                  (case awaitRates br now st2 of
                     (ratesOutcome, st3) \<Rightarrow>
                       (let rateMap = (case ratesOutcome of Inr m \<Rightarrow> m | Inl err \<Rightarrow> Map.empty);
                            parsed = parseAll meta rateMap rawPositions;
                            longMarketValue = foldl (\<lambda>sum pos. sum + market_value pos) 0 parsed
                        in (Inr (makeAccount cr (cr + longMarketValue) longMarketValue), st3))))
      | (Inl err, st1) \<Rightarrow>
          (let st2 = send PnlReq st1
           in case request (pnlSummary br) of
                Inl e \<Rightarrow> (Inl e, st2)
              | Inr response \<Rightarrow>
                  (let cr = creditOf response;
                       eq = cr + unrealizedPnLOf response
                   in (Inr (makeAccount cr eq (max (eq - cr) 0)), st2))))"

section \<open>The rate limiter\<close>

text \<open>
  \<^verbatim>\<open>
  class RateLimiter {
    private timestamps: number[] = [];
    private readonly maxRequests: number;
    private readonly windowMs = 60_000; // 1 minute

    /** Wait until a request slot is available, then consume it. */
    async acquire(): Promise<void> {
      this.prune();
      if (this.timestamps.length >= this.maxRequests) {
        const oldest = this.timestamps[0]!;
        const waitMs = oldest + this.windowMs - Date.now() + 50; // +50ms safety margin
        if (waitMs > 0) {
          await new Promise<void>((resolve) => setTimeout(resolve, waitMs));
          this.prune();
        }
      }
      this.timestamps.push(Date.now());
    }

    private prune(): void {
      const cutoff = Date.now() - this.windowMs;
      while (this.timestamps.length > 0 && this.timestamps[0]! < cutoff) {
        this.timestamps.shift();
      }
    }
  }
  \<close>
  \<^verbatim>\<open>acquire\<close> is two synchronous steps with the timer between them. Each step reads
  the clock once (\<open>now\<close>).
\<close>

record RateLimiter =
  timestamps :: "int list"
  maxRequests :: int

definition windowMs :: int where
  "windowMs = 60000"

definition prune :: "int \<Rightarrow> RateLimiter \<Rightarrow> RateLimiter" where
  "prune now l = l\<lparr>timestamps := dropWhile (\<lambda>t. t < now - windowMs) (timestamps l)\<rparr>"

definition push :: "int \<Rightarrow> RateLimiter \<Rightarrow> RateLimiter" where
  "push now l = l\<lparr>timestamps := timestamps l @ [now]\<rparr>"

text \<open>What the first step of \<^verbatim>\<open>acquire\<close> ends with: the slot is taken, or a timer of
  \<open>waitMs\<close> milliseconds is set.\<close>

datatype acquire_step = Admitted | Sleeping int

text \<open>
  The first step. With no timestamp left, \<^verbatim>\<open>this.timestamps[0]\<close> is \<^verbatim>\<open>undefined\<close>
  and \<^verbatim>\<open>waitMs\<close> is \<^verbatim>\<open>NaN\<close>, which is not greater than 0: the caller is admitted.
\<close>

definition acquireBegin :: "int \<Rightarrow> RateLimiter \<Rightarrow> acquire_step \<times> RateLimiter" where
  "acquireBegin now l =
     (let l1 = prune now l in
      if int (length (timestamps l1)) \<ge> maxRequests l1 then
        (case timestamps l1 of
           [] \<Rightarrow> (Admitted, push now l1)
         | oldest # later \<Rightarrow>
             (let waitMs = oldest + windowMs - now + 50 in
              if waitMs > 0 then (Sleeping waitMs, l1) else (Admitted, push now l1)))
      else (Admitted, push now l1))"

text \<open>The second step, when the timer has fired: prune again, then take the slot.\<close>

definition acquireResume :: "int \<Rightarrow> RateLimiter \<Rightarrow> RateLimiter" where
  "acquireResume now l = push now (prune now l)"

text \<open>
  Callers of one limiter. \<open>Call t\<close>: a caller enters \<^verbatim>\<open>acquire\<close> at time \<open>t\<close>.
  \<open>Wake t\<close>: the timer of the caller that has slept longest fires at time \<open>t\<close>, not
  before it is due. The run keeps the limiter, the clock, the due times of the
  sleeping callers (in the order they went to sleep) and every timestamp admitted so
  far; an event that cannot happen (time running backwards, no timer due) ends the run
  with \<open>None\<close>.
\<close>

datatype limiter_event = Call int | Wake int

record limiter_run =
  limiter :: RateLimiter
  clock :: int
  sleepers :: "int list"
  admitted :: "int list"

definition limiterStep :: "limiter_event \<Rightarrow> limiter_run \<Rightarrow> limiter_run option" where
  "limiterStep ev r =
     (case ev of
        Call t \<Rightarrow>
          if t < clock r then None
          else
            (case acquireBegin t (limiter r) of
               (Admitted, l') \<Rightarrow>
                 Some (r\<lparr>limiter := l', clock := t, admitted := admitted r @ [t]\<rparr>)
             | (Sleeping waitMs, l') \<Rightarrow>
                 Some (r\<lparr>limiter := l', clock := t, sleepers := sleepers r @ [t + waitMs]\<rparr>))
      | Wake t \<Rightarrow>
          (case sleepers r of
             [] \<Rightarrow> None
           | due # rest \<Rightarrow>
               if t < clock r \<or> t < due then None
               else Some (r\<lparr>limiter := acquireResume t (limiter r), clock := t,
                            sleepers := rest, admitted := admitted r @ [t]\<rparr>)))"

fun runLimiter :: "limiter_event list \<Rightarrow> limiter_run \<Rightarrow> limiter_run option" where
  "runLimiter [] r = Some r"
| "runLimiter (ev # evs) r =
     (case limiterStep ev r of None \<Rightarrow> None | Some r' \<Rightarrow> runLimiter evs r')"

text \<open>\<^verbatim>\<open>new RateLimiter(maxRequests)\<close> at time 0, nobody waiting.\<close>

definition newLimiter :: "int \<Rightarrow> limiter_run" where
  "newLimiter cap =
     \<lparr>limiter = \<lparr>timestamps = [], maxRequests = cap\<rparr>, clock = 0, sleepers = [], admitted = []\<rparr>"

text \<open>The number of admitted timestamps in the 60 seconds that end at \<open>T\<close>.\<close>

definition admittedIn :: "int \<Rightarrow> int list \<Rightarrow> nat" where
  "admittedIn T xs = length (filter (\<lambda>x. T - windowMs < x \<and> x \<le> T) xs)"

text \<open>
  Callers that use the limiter one at a time: each pair is the time a caller enters
  \<^verbatim>\<open>acquire\<close> and the time its timer fires if it has to sleep; the call is over
  before the next caller enters.
\<close>

fun runAlone :: "(int \<times> int) list \<Rightarrow> limiter_run \<Rightarrow> limiter_run option" where
  "runAlone [] r = Some r"
| "runAlone ((t1, t2) # rest) r =
     (case limiterStep (Call t1) r of
        None \<Rightarrow> None
      | Some r1 \<Rightarrow>
          (case sleepers r1 of
             [] \<Rightarrow> runAlone rest r1
           | due # others \<Rightarrow>
               (case limiterStep (Wake t2) r1 of
                  None \<Rightarrow> None
                | Some r2 \<Rightarrow> runAlone rest r2)))"

text \<open>The number of admitted timestamps in the closed interval of 60 seconds that ends at \<open>T\<close>.\<close>

definition admittedWithin :: "int \<Rightarrow> int list \<Rightarrow> nat" where
  "admittedWithin T xs = length (filter (\<lambda>x. T - windowMs \<le> x \<and> x \<le> T) xs)"

text \<open>
  What holds between the calls of callers that come one at a time: nobody sleeps, the
  admitted timestamps are in order and not after the clock, the limiter holds the
  admitted timestamps from some cutoff on that is a full window behind the clock,
  and no closed window of 60 seconds holds more admitted timestamps than the cap.
\<close>

definition limiterInv :: "int \<Rightarrow> limiter_run \<Rightarrow> bool" where
  "limiterInv cap r =
     (maxRequests (limiter r) = cap \<and> sleepers r = [] \<and> sorted (admitted r)
      \<and> (\<forall>x\<in>set (admitted r). x \<le> clock r)
      \<and> (\<exists>c. c \<le> clock r - windowMs \<and> timestamps (limiter r) = filter (\<lambda>x. c \<le> x) (admitted r))
      \<and> (\<forall>T. admittedWithin T (admitted r) \<le> nat cap))"

section \<open>Order approvals\<close>

text \<open>
  Modelled from the spec: the consumption of an approval token. The queries on the
  \<^verbatim>\<open>order_approvals\<close> table and the code that submits an approved order are not among
  the sources (only the table is, in the schema, and the import of
  \<^verbatim>\<open>cleanupExpiredApprovals\<close>). The specification says: the trade is submitted to
  the broker once a caller presents the valid, unexpired, unused token, at which point
  \<^verbatim>\<open>usedAt\<close> is stamped atomically with the submission; presenting an already-used or
  expired token fails with \<^verbatim>\<open>EXPIRED_APPROVAL_TOKEN\<close> or \<^verbatim>\<open>INVALID_APPROVAL_TOKEN\<close>
  respectively and does not submit again. A token that no approval carries is taken
  as not valid (\<^verbatim>\<open>INVALID_APPROVAL_TOKEN\<close>).

  The record has the columns of the table that the workflow reads.
\<close>

record OrderApproval =
  approval_id :: string
  approval_token :: string
  order_params :: OrderParams
  expires_at :: int
  used_at :: "int option"

text \<open>The table, and the orders submitted to the broker so far (by token).\<close>

record approval_store =
  approvals :: "OrderApproval list"
  submitted :: "string list"

text \<open>
  Modelled from the spec: the presentation of an approval token (the function that
  validates, consumes and submits is not among the sources). One atomic step: the
  approval that carries the token is looked up; a used one fails with
  \<^verbatim>\<open>EXPIRED_APPROVAL_TOKEN\<close>, an expired one with \<^verbatim>\<open>INVALID_APPROVAL_TOKEN\<close>;
  otherwise the order is submitted and \<^verbatim>\<open>usedAt\<close> is stamped in the same step.
\<close>

definition presentToken :: "int \<Rightarrow> string \<Rightarrow> approval_store \<Rightarrow> (ErrorCode + OrderParams) \<times> approval_store" where
  "presentToken now token db =
     (case find (\<lambda>a. approval_token a = token) (approvals db) of
        None \<Rightarrow> (Inl INVALID_APPROVAL_TOKEN, db)
      | Some a \<Rightarrow>
          if used_at a \<noteq> None then (Inl EXPIRED_APPROVAL_TOKEN, db)
          else if expires_at a \<le> now then (Inl INVALID_APPROVAL_TOKEN, db)
          else (Inr (order_params a),
                db\<lparr>approvals := map (\<lambda>b. if approval_token b = token
                                            then b\<lparr>used_at := Some now\<rparr> else b) (approvals db),
                   submitted := submitted db @ [token]\<rparr>))"

text \<open>Presentations one after the other, each with its time and token.\<close>

fun presentAll :: "(int \<times> string) list \<Rightarrow> approval_store \<Rightarrow> approval_store" where
  "presentAll [] db = db"
| "presentAll ((now, token) # rest) db = presentAll rest (snd (presentToken now token db))"

section \<open>Example sessions and brokers\<close>

definition emptySlot :: "'a slot" where
  "emptySlot = \<lparr>entry = None, pending = None, fetches = 0\<rparr>"

text \<open>The risk state with the kill switch as given and no loss recorded.\<close>

definition riskWith :: "bool \<Rightarrow> RiskState" where
  "riskWith active =
     \<lparr>kill_switch_active = active, kill_switch_reason = None, kill_switch_at = None,
      daily_loss_usd = 0, daily_loss_reset_at = Some 0, last_loss_at = None,
      cooldown_until = None\<rparr>"

text \<open>A session right after \<^verbatim>\<open>createEtoroProviders\<close>: empty caches, no request sent.\<close>

definition newSession :: "RiskState \<Rightarrow> session" where
  "newSession r =
     \<lparr>risk = r, symbolToId = Map.empty, idToMeta = Map.empty, metadataPending = False,
      allInstrumentsFetchedAt = 0, portfolioSlot = emptySlot, ratesSlot = emptySlot,
      calls = []\<rparr>"

definition searchItem :: "int \<Rightarrow> string \<Rightarrow> EtoroSearchItem" where
  "searchItem i s =
     \<lparr>si_instrumentId = Some i, si_instrumentID = None, internalSymbolFull = Some s,
      symbolFull = None, fullSymbolName = None, displayName = None, si_name = None\<rparr>"

definition searchHits :: "EtoroSearchItem list \<Rightarrow> EtoroSearchResponse transport" where
  "searchHits its = Ok \<lparr>items = Some its, instruments_items = None\<rparr>"

text \<open>
  The broker of the trading test with the ask of the specification: the search knows
  \<^verbatim>\<open>AAPL\<close> as instrument 999, the rate of 999 is ask 101, bid 100, last execution
  100.5, and an order is accepted as order 555 with status 1. The portfolio and the
  profit/loss summary are as given.
\<close>

definition testBroker :: "EtoroPortfolioResponse transport \<Rightarrow> EtoroPortfolioResponse transport \<Rightarrow> broker" where
  "testBroker pf pl =
     \<lparr>search = (\<lambda>s. if s = ''AAPL'' then searchHits [searchItem 999 ''AAPL'']
                     else searchHits []),
      rates = Ok (Some [\<lparr>rate_instrumentId = Some 999, rate_instrumentID = None,
                         ask = Some 101, bid = Some 100, lastExecution = Some (201 / 2)\<rparr>]),
      instrumentsList = Ok (Some []),
      portfolio = pf,
      pnlSummary = pl,
      openOrder = (\<lambda>i b u. Ok \<lparr>orderForOpen =
                     Some \<lparr>oo_orderID = Some 555, oo_statusID = Some 1,
                           oo_instrumentID = Some i, oo_amountInUnits = Some u\<rparr>\<rparr>)\<rparr>"

text \<open>The same broker with another answer to the rates request.\<close>

definition withRates :: "EtoroRate list \<Rightarrow> broker \<Rightarrow> broker" where
  "withRates rs br = br\<lparr>rates := Ok (Some rs)\<rparr>"

definition rateOf :: "int \<Rightarrow> real option \<Rightarrow> real option \<Rightarrow> real option \<Rightarrow> EtoroRate" where
  "rateOf i a b l =
     \<lparr>rate_instrumentId = Some i, rate_instrumentID = None, ask = a, bid = b,
      lastExecution = l\<rparr>"

text \<open>A broker that answers searches as given and fails every other request.\<close>

definition searchBroker :: "(string \<Rightarrow> EtoroSearchResponse transport) \<Rightarrow> broker" where
  "searchBroker f =
     \<lparr>search = f, rates = Failed, instrumentsList = Failed, portfolio = Failed,
      pnlSummary = Failed, openOrder = (\<lambda>i b u. Failed)\<rparr>"

text \<open>The search knows the base symbol \<^verbatim>\<open>BTC\<close> only, as instrument 100000.\<close>

definition baseBroker :: broker where
  "baseBroker =
     searchBroker (\<lambda>s. if s = ''BTC'' then searchHits [searchItem 100000 ''BTC'']
                        else searchHits [])"

text \<open>
  The search knows \<^verbatim>\<open>BTC\<close> as instrument 100000 and, under the pair notation
  \<^verbatim>\<open>BTC/USD\<close>, another instrument 7.
\<close>

definition pairBroker :: broker where
  "pairBroker =
     searchBroker (\<lambda>s. if s = ''BTC/USD'' then searchHits [searchItem 7 ''BTC/USD'']
                        else if s = ''BTC'' then searchHits [searchItem 100000 ''BTC'']
                        else searchHits [])"

definition marketOrder :: "string \<Rightarrow> real option \<Rightarrow> real option \<Rightarrow> order_side \<Rightarrow> OrderParams" where
  "marketOrder s q n sd =
     \<lparr>op_symbol = s, op_qty = q, op_notional = n, op_side = sd, op_type = Market\<rparr>"

text \<open>
  A raw long position: position identifier, instrument, units and opening rate.
\<close>

definition rawPosition :: "int \<Rightarrow> int \<Rightarrow> real \<Rightarrow> real \<Rightarrow> EtoroPortfolioPosition" where
  "rawPosition pid iid u opening =
     \<lparr>positionId = Some pid, positionID = None, PositionID = None,
      pp_instrumentId = Some iid, pp_instrumentID = None, pp_InstrumentID = None,
      isBuy = Some True, openRate = Some opening, closeRate = None, amount = None,
      units = Some u, pnL = None, pnl = None, PnL = None, pp_unrealizedPnL = None\<rparr>"

text \<open>
  A portfolio with a credit of 500, one position of 10 units of instrument 999, and
  a mirror that lists the same position again and a second one of 2 units.
\<close>

definition examplePortfolio :: EtoroPortfolioResponse where
  "examplePortfolio =
     \<lparr>clientPortfolio = Some
        \<lparr>credit = Some 500, unrealizedPnL = Some 126,
         positions = Some [rawPosition 1 999 10 90],
         mirrors = Some [\<lparr>mirror_positions =
                           Some [rawPosition 1 999 10 90, rawPosition 2 999 2 90]\<rparr>]\<rparr>\<rparr>"

text \<open>
  The default limiter (55 requests per minute) under a burst: one caller at time 0,
  54 callers at 1000, two callers at 2000, whose timers both fire at 60050.
\<close>

definition burst :: "limiter_event list" where
  "burst = Call 0 # replicate 54 (Call 1000) @ [Call 2000, Call 2000, Wake 60050, Wake 60050]"

text \<open>A table with one approval, unused, that expires at 1000.\<close>

definition exampleStore :: approval_store where
  "exampleStore =
     \<lparr>approvals = [\<lparr>approval_id = ''a1'', approval_token = ''tok-1'',
                     order_params = \<lparr>op_symbol = ''AAPL'', op_qty = Some 3, op_notional = None,
                                     op_side = Buy, op_type = Market\<rparr>,
                     expires_at = 1000, used_at = None\<rparr>],
      submitted = []\<rparr>"

definition limitOrder :: "string \<Rightarrow> real \<Rightarrow> order_side \<Rightarrow> OrderParams" where
  "limitOrder s q sd =
     \<lparr>op_symbol = s, op_qty = Some q, op_notional = None, op_side = sd, op_type = Limit\<rparr>"

section \<open>Properties\<close>

lemmas eval_defs =
  createOrder_def resolveInstrumentId_def testBroker_def marketOrder_def limitOrder_def
  newSession_def toUpperCase_def toUpperChar_def trim_def isWhitespace_def
  buildSymbolCandidates_def endsWith_def setAdd_def splitHead_def searchExactSymbol_def
  request_def searchHits_def pickItem_def extractItems_def extractSymbol_def
  extractInstrumentId_def nullish_def searchItem_def send_def storeMapping_def
  resolveUnits_def awaitRates_def getCachedRates_def slotGet_def slotJoinOrStart_def
  emptySlot_def ratesSettled_def slotSettled_def fetchAllRates_def ratesMap_def
  unitsAtPrice_def referencePrice_def searchBroker_def baseBroker_def pairBroker_def
  riskWith_def mapOpenOrder_def mapStatus_def isFresh_def ttlMs_def CACHE_TTL_MS_def
  classifyStatus_def withRates_def rateOf_def Let_def

lemmas account_defs =
  getAccount_def awaitPortfolio_def getCachedPortfolio_def portfolioSettled_def
  resolveMetadata_def resolveMetadataStart_def metadataSettled_def
  fetchInstrumentMetadata_def storeDisplayData_def displayMeta_def freshMeta_def uniqueIds_def
  ALL_INSTRUMENTS_CACHE_TTL_MS_def collectPositions_def dedupePositions_def getPositionId_def
  getInstrumentId_def parseAll_def parsePosition_def orElse_def makeAccount_def creditOf_def
  unrealizedPnLOf_def examplePortfolio_def rawPosition_def List.map_filter_def



subsection \<open>Strings and symbol candidates\<close>


lemma toUpperChar_idem: "toUpperChar (toUpperChar ch) = toUpperChar ch"
  by (simp add: toUpperChar_def)

lemma map_fixed_iff: "(map f xs = xs) = (\<forall>x\<in>set xs. f x = x)"
  by (induction xs) auto

lemma toUpperCase_fixed_iff: "(toUpperCase s = s) = (\<forall>ch\<in>set s. toUpperChar ch = ch)"
  by (simp add: toUpperCase_def map_fixed_iff)

lemma toUpperCase_idem: "toUpperCase (toUpperCase s) = toUpperCase s"
  by (simp add: toUpperCase_def toUpperChar_idem)

lemma set_replaceFirst_delete: "set (replaceFirst pat [] s) \<subseteq> set s"
proof (induction s)
  case Nil
  then show ?case by simp
next
  case (Cons c cs)
  have "set (drop (length pat) (c # cs)) \<subseteq> set (c # cs)"
    by (rule set_drop_subset)
  with Cons show ?case by auto
qed

lemma set_splitHead: "set (splitHead sep s) \<subseteq> set s"
  by (auto simp: splitHead_def dest: set_takeWhileD)

lemma candidates_fixed:
  assumes "toUpperCase n = n" and "c \<in> set (buildSymbolCandidates n)"
  shows "toUpperCase c = c"
proof -
  have fixed: "\<forall>ch\<in>set n. toUpperChar ch = ch"
    using assms(1) by (simp add: toUpperCase_fixed_iff)
  have usd: "\<forall>ch\<in>set ''/USD''. toUpperChar ch = ch"
    by (simp add: toUpperChar_def)
  have "set c \<subseteq> set n \<union> set ''/USD''"
    using assms(2) set_replaceFirst_delete [of "''/''" n] set_replaceFirst_delete [of "''USD''" n]
      set_splitHead [of "CHR ''/''" n]
    by (auto simp: buildSymbolCandidates_def setAdd_def split: if_splits)
  with fixed usd show ?thesis
    unfolding toUpperCase_fixed_iff by blast
qed

subsection \<open>The search loop\<close>

lemma searchExactSymbol_nonzero: "searchExactSymbol br s = Inr (Some (i, f)) \<Longrightarrow> i \<noteq> 0"
  by (auto simp: searchExactSymbol_def pickItem_def split: sum.splits option.splits if_splits)

lemma searchCandidates_Inr:
  "searchCandidates br now cs st = (Inr i, st') \<Longrightarrow>
     \<exists>pre c post found.
        cs = pre @ c # post
      \<and> st' = storeMapping now c i found (st\<lparr>calls := calls st @ map SearchReq (pre @ [c])\<rparr>)
      \<and> (\<forall>st2 now2. searchCandidates br now2 cs st2
             = (Inr i, storeMapping now2 c i found (st2\<lparr>calls := calls st2 @ map SearchReq (pre @ [c])\<rparr>)))"
proof (induction cs arbitrary: st)
  case Nil
  then show ?case by simp
next
  case (Cons a cs)
  show ?case
  proof (cases "searchExactSymbol br a")
    case (Inl e)
    with Cons.prems show ?thesis by (simp add: Let_def)
  next
    case (Inr r)
    show ?thesis
    proof (cases r)
      case None
      with Inr Cons.prems have "searchCandidates br now cs (send (SearchReq a) st) = (Inr i, st')"
        by (simp add: Let_def)
      from Cons.IH [OF this] obtain pre c post found where
        cs: "cs = pre @ c # post" and
        st': "st' = storeMapping now c i found
                 ((send (SearchReq a) st)\<lparr>calls := calls (send (SearchReq a) st) @ map SearchReq (pre @ [c])\<rparr>)" and
        rep: "\<forall>st2 now2. searchCandidates br now2 cs st2
             = (Inr i, storeMapping now2 c i found (st2\<lparr>calls := calls st2 @ map SearchReq (pre @ [c])\<rparr>))"
        by blast
      have "a # cs = (a # pre) @ c # post" using cs by simp
      moreover have "st' = storeMapping now c i found (st\<lparr>calls := calls st @ map SearchReq ((a # pre) @ [c])\<rparr>)"
        using st' by (simp add: send_def)
      moreover have "\<forall>st2 now2. searchCandidates br now2 (a # cs) st2
             = (Inr i, storeMapping now2 c i found (st2\<lparr>calls := calls st2 @ map SearchReq ((a # pre) @ [c])\<rparr>))"
        using rep Inr None by (simp add: Let_def send_def)
      ultimately show ?thesis by blast
    next
      case (Some m)
      obtain j found where m: "m = (j, found)" by (cases m)
      have j0: "j \<noteq> 0" using Inr Some m searchExactSymbol_nonzero by blast
      with Inr Some m Cons.prems have ij: "i = j" and st': "st' = storeMapping now a j found (send (SearchReq a) st)"
        by (auto simp add: Let_def)
      have "a # cs = [] @ a # cs" by simp
      moreover have "st' = storeMapping now a i found (st\<lparr>calls := calls st @ map SearchReq ([] @ [a])\<rparr>)"
        using st' ij by (simp add: send_def)
      moreover have "\<forall>st2 now2. searchCandidates br now2 (a # cs) st2
             = (Inr i, storeMapping now2 a i found (st2\<lparr>calls := calls st2 @ map SearchReq ([] @ [a])\<rparr>))"
        using Inr Some m j0 ij by (simp add: Let_def send_def)
      ultimately show ?thesis by blast
    qed
  qed
qed


lemma searchCandidates_fst: "fst (searchCandidates br now cs st) = fst (searchCandidates br now2 cs st2)"
proof (induction cs arbitrary: st st2)
  case Nil
  then show ?case by simp
next
  case (Cons a cs)
  then show ?case
    by (auto simp: Let_def split: sum.splits option.splits)
qed

lemma resolve_stale:
  "(case symbolToId st (toUpperCase (trim s)) of None \<Rightarrow> True | Some (j, upd) \<Rightarrow> \<not> isFresh now upd)
   \<Longrightarrow> resolveInstrumentId br now s st = searchCandidates br now (buildSymbolCandidates (toUpperCase (trim s))) st"
  by (auto simp: resolveInstrumentId_def Let_def split: option.splits)

text \<open>
  The steps of \<^verbatim>\<open>resolveInstrumentId\<close>, run to the end by one caller alone, are the
  call as modelled above.
\<close>

lemma resolveFinish_searchNext:
  "resolveFinish br now (searchNext cs st) = searchCandidates br now cs st"
proof (induction cs arbitrary: st)
  case Nil
  then show ?case by (simp add: searchNext_def)
next
  case (Cons c cs)
  have "resolveFinish br now (searchNext (c # cs) st)
          = resolveFinish br now (searchSettled br now c cs (send (SearchReq c) st))"
    by (simp add: searchNext_def)
  also have "\<dots> = searchCandidates br now (c # cs) st"
    using Cons.IH [of "send (SearchReq c) st"]
    by (auto simp: searchSettled_def Let_def split: sum.splits option.splits)
  finally show ?case .
qed

lemma resolveFinish_start:
  "resolveFinish br now (resolveInstrumentIdStart now symbol st) = resolveInstrumentId br now symbol st"
  by (auto simp: resolveInstrumentIdStart_def resolveInstrumentId_def Let_def resolveFinish_searchNext
           split: option.splits)

lemma candidates_BTC: "buildSymbolCandidates ''BTC/USD'' = [''BTC/USD'', ''BTCUSD'', ''BTC'']
  \<and> buildSymbolCandidates ''BTCUSD'' = [''BTCUSD'', ''BTC'', ''BTCUSD/USD'']"
  by (simp add: buildSymbolCandidates_def endsWith_def setAdd_def splitHead_def)

lemma normalized_BTC: "toUpperCase (trim ''BTC/USD'') = ''BTC/USD'' \<and> toUpperCase (trim ''BTCUSD'') = ''BTCUSD''"
  by (simp add: toUpperCase_def toUpperChar_def trim_def isWhitespace_def)

lemma pair_notations_same_state:
  assumes nopair: "searchExactSymbol br ''BTC/USD'' = Inr None"
      and base: "searchExactSymbol br ''BTC'' = Inr (Some (i, found))"
      and s1: "case symbolToId st ''BTC/USD'' of None \<Rightarrow> True | Some (j, upd) \<Rightarrow> \<not> isFresh now upd"
      and s2: "case symbolToId st ''BTCUSD'' of None \<Rightarrow> True | Some (j, upd) \<Rightarrow> \<not> isFresh now upd"
  shows "fst (resolveInstrumentId br now ''BTC/USD'' st) = fst (resolveInstrumentId br now ''BTCUSD'' st)"
proof -
  have a: "resolveInstrumentId br now ''BTC/USD'' st = searchCandidates br now [''BTC/USD'', ''BTCUSD'', ''BTC''] st"
    using resolve_stale [where st=st and s="''BTC/USD''" and now=now and br=br] s1 candidates_BTC normalized_BTC by simp
  have b: "resolveInstrumentId br now ''BTCUSD'' st = searchCandidates br now [''BTCUSD'', ''BTC'', ''BTCUSD/USD''] st"
    using resolve_stale [where st=st and s="''BTCUSD''" and now=now and br=br] s2 candidates_BTC normalized_BTC by simp
  have i0: "i \<noteq> 0" using base searchExactSymbol_nonzero by blast
  show ?thesis
    unfolding a b using nopair base i0
    by (auto simp: Let_def split: sum.splits option.splits)
qed
lemma pair_notations_in_sequence:
  assumes nopair: "searchExactSymbol br ''BTC/USD'' = Inr None"
      and base: "searchExactSymbol br ''BTC'' = Inr (Some (i, found))"
      and s1: "case symbolToId st ''BTC/USD'' of None \<Rightarrow> True | Some (j, upd) \<Rightarrow> \<not> isFresh now upd"
      and s2: "case symbolToId st ''BTCUSD'' of None \<Rightarrow> True | Some (j, upd) \<Rightarrow> \<not> isFresh now upd"
      and later: "now \<le> now2"
  shows "fst (resolveInstrumentId br now2 ''BTCUSD'' (snd (resolveInstrumentId br now ''BTC/USD'' st)))
          = fst (resolveInstrumentId br now ''BTC/USD'' st)"
proof -
  have a: "resolveInstrumentId br now ''BTC/USD'' st = searchCandidates br now [''BTC/USD'', ''BTCUSD'', ''BTC''] st"
    using resolve_stale [where st=st and s="''BTC/USD''" and now=now and br=br] s1 candidates_BTC normalized_BTC by simp
  have i0: "i \<noteq> 0" using base searchExactSymbol_nonzero by blast
  have s2': "case symbolToId st ''BTCUSD'' of None \<Rightarrow> True | Some (j, upd) \<Rightarrow> \<not> isFresh now2 upd"
    using s2 later by (auto simp: isFresh_def split: option.splits)
  have up: "toUpperCase ''BTCUSD'' = ''BTCUSD''" "toUpperCase ''BTC'' = ''BTC''"
    by (simp_all add: toUpperCase_def toUpperChar_def)
  show ?thesis
  proof (cases "searchExactSymbol br ''BTCUSD''")
    case (Inl e)
    then show ?thesis
      unfolding a using nopair s2' normalized_BTC candidates_BTC
      by (auto simp add: resolveInstrumentId_def Let_def send_def split: option.splits)
  next
    case (Inr r)
    show ?thesis
    proof (cases r)
      case None
      then show ?thesis
        unfolding a using nopair Inr base i0 s2' normalized_BTC candidates_BTC up
        by (auto simp add: resolveInstrumentId_def Let_def send_def storeMapping_def split: option.splits)
    next
      case (Some m)
      obtain j f where m: "m = (j, f)" by (cases m)
      have j0: "j \<noteq> 0" using Inr Some m searchExactSymbol_nonzero by blast
      show ?thesis
        unfolding a using nopair Inr Some m j0 normalized_BTC candidates_BTC up
        by (simp add: resolveInstrumentId_def Let_def send_def storeMapping_def)
    qed
  qed
qed


subsection \<open>createOrder and the risk state\<close>

lemma request_not_kill: "request t \<noteq> Inl (MakoraError KILL_SWITCH_ACTIVE)"
  by (simp add: request_def classifyStatus_def split: transport.splits)

lemma searchCandidates_not_kill: "fst (searchCandidates br now cs st) \<noteq> Inl (MakoraError KILL_SWITCH_ACTIVE)"
proof (induction cs arbitrary: st)
  case Nil
  then show ?case by simp
next
  case (Cons a cs)
  have "\<And>e. searchExactSymbol br a = Inl e \<Longrightarrow> e \<noteq> MakoraError KILL_SWITCH_ACTIVE"
    using request_not_kill [of "search br a"]
    by (auto simp: searchExactSymbol_def split: sum.splits)
  with Cons show ?case
    by (auto simp: Let_def split: sum.splits option.splits)
qed

lemma resolveInstrumentId_not_kill:
  "fst (resolveInstrumentId br now s st) \<noteq> Inl (MakoraError KILL_SWITCH_ACTIVE)"
  using searchCandidates_not_kill
  by (simp add: resolveInstrumentId_def Let_def split: option.splits)

lemma resolveUnits_not_kill:
  "fst (resolveUnits br now i params st) \<noteq> Inl (MakoraError KILL_SWITCH_ACTIVE)"
  by (auto simp: resolveUnits_def awaitRates_def unitsAtPrice_def
           split: option.splits prod.splits sum.splits cache_reply.splits)

lemma createOrder_not_kill:
  "fst (createOrder br now params st) \<noteq> Inl (MakoraError KILL_SWITCH_ACTIVE)"
proof -
  have a: "\<And>st1 e. resolveInstrumentId br now (op_symbol params) st = (Inl e, st1) \<Longrightarrow> e \<noteq> MakoraError KILL_SWITCH_ACTIVE"
    using resolveInstrumentId_not_kill [of br now "op_symbol params" st] by auto
  have b: "\<And>i st1 st2 e. resolveUnits br now i params st1 = (Inl e, st2) \<Longrightarrow> e \<noteq> MakoraError KILL_SWITCH_ACTIVE"
    using resolveUnits_not_kill by (metis fst_conv)
  show ?thesis
    using a b
    by (auto simp: createOrder_def Let_def request_not_kill split: prod.splits sum.splits)
qed

lemma send_risk: "send q (st\<lparr>risk := r\<rparr>) = (send q st)\<lparr>risk := r\<rparr>"
  by (simp add: send_def)

lemma storeMapping_risk: "storeMapping now c i f (st\<lparr>risk := r\<rparr>) = (storeMapping now c i f st)\<lparr>risk := r\<rparr>"
  by (simp add: storeMapping_def Let_def)

lemma searchCandidates_risk:
  "searchCandidates br now cs (st\<lparr>risk := r\<rparr>)
     = (fst (searchCandidates br now cs st), (snd (searchCandidates br now cs st))\<lparr>risk := r\<rparr>)"
proof (induction cs arbitrary: st)
  case Nil
  then show ?case by simp
next
  case (Cons a cs)
  then show ?case
    by (auto simp: Let_def send_risk storeMapping_risk split: sum.splits option.splits)
qed

lemma resolveInstrumentId_risk:
  "resolveInstrumentId br now s (st\<lparr>risk := r\<rparr>)
     = (fst (resolveInstrumentId br now s st), (snd (resolveInstrumentId br now s st))\<lparr>risk := r\<rparr>)"
  by (simp add: resolveInstrumentId_def Let_def searchCandidates_risk split: option.splits)

lemma awaitRates_risk:
  "awaitRates br now (st\<lparr>risk := r\<rparr>)
     = (fst (awaitRates br now st), (snd (awaitRates br now st))\<lparr>risk := r\<rparr>)"
  by (simp add: awaitRates_def getCachedRates_def ratesSettled_def send_def
           split: prod.splits cache_reply.splits option.splits)

lemma resolveUnits_risk:
  "resolveUnits br now i params (st\<lparr>risk := r\<rparr>)
     = (fst (resolveUnits br now i params st), (snd (resolveUnits br now i params st))\<lparr>risk := r\<rparr>)"
  by (simp add: resolveUnits_def awaitRates_risk split: option.splits prod.splits sum.splits)

lemma createOrder_risk:
  "createOrder br now params (st\<lparr>risk := r\<rparr>)
     = (fst (createOrder br now params st), (snd (createOrder br now params st))\<lparr>risk := r\<rparr>)"
  by (simp add: createOrder_def resolveInstrumentId_risk resolveUnits_risk send_risk Let_def
           split: prod.splits sum.splits)


lemma createOrder_notional_core:
  assumes "op_type params = Market" "op_qty params = None" "op_notional params = Some n"
      and "resolveInstrumentId br now (op_symbol params) st = (Inr i, st1)"
      and "awaitRates br now st1 = (Inr rateMap, st2)"
  shows "createOrder br now params st =
           (case unitsAtPrice n (referencePrice (op_side params) (rateMap i)) of
              Inl e \<Rightarrow> (Inl e, st2)
            | Inr u \<Rightarrow>
                (case request (openOrder br i (op_side params = Buy) u) of
                   Inl e \<Rightarrow> (Inl e, send (OpenOrderReq i (op_side params = Buy) u) st2)
                 | Inr response \<Rightarrow> (Inr (mapOpenOrder params i response),
                                    send (OpenOrderReq i (op_side params = Buy) u) st2)))"
  using assms
  by (simp add: createOrder_def resolveUnits_def Let_def split: sum.splits)

text \<open>
  Further runs of \<^verbatim>\<open>createOrder\<close> with a notional of 100 on a new session: a sell
  at a bid of 100 sends 1 unit; a buy with no ask and a last execution at 50 sends 2
  units; a buy when the instrument has no rate, and a buy at an ask of 0 (whatever
  the last execution), fail with \<^verbatim>\<open>PROVIDER_ERROR\<close> after the rates request, without
  an order request.
\<close>

lemma createOrder_notional_examples:
  "calls (snd (createOrder (testBroker Failed Failed) 0
                 (marketOrder ''AAPL'' None (Some 100) Sell) (newSession (riskWith False))))
     = [SearchReq ''AAPL'', RatesReq, OpenOrderReq 999 False 1]
   \<and> calls (snd (createOrder (withRates [rateOf 999 None None (Some 50)] (testBroker Failed Failed)) 0
                 (marketOrder ''AAPL'' None (Some 100) Buy) (newSession (riskWith False))))
     = [SearchReq ''AAPL'', RatesReq, OpenOrderReq 999 True 2]
   \<and> createOrder (withRates [] (testBroker Failed Failed)) 0
        (marketOrder ''AAPL'' None (Some 100) Buy) (newSession (riskWith False))
     = (Inl (MakoraError PROVIDER_ERROR),
        snd (awaitRates (withRates [] (testBroker Failed Failed)) 0
               (snd (resolveInstrumentId (testBroker Failed Failed) 0 ''AAPL''
                       (newSession (riskWith False))))))
   \<and> fst (createOrder (withRates [rateOf 999 (Some 0) None (Some 50)] (testBroker Failed Failed)) 0
             (marketOrder ''AAPL'' None (Some 100) Buy) (newSession (riskWith False)))
     = Inl (MakoraError PROVIDER_ERROR)
   \<and> calls (snd (createOrder (withRates [rateOf 999 (Some 0) None (Some 50)] (testBroker Failed Failed)) 0
                 (marketOrder ''AAPL'' None (Some 100) Buy) (newSession (riskWith False))))
     = [SearchReq ''AAPL'', RatesReq]"
  by (simp add: eval_defs)

subsection \<open>The caches\<close>

lemma slotGet_joins:
  assumes "pending s = Some p"
      and "case entry s of None \<Rightarrow> True | Some (d, expiresAt) \<Rightarrow> expiresAt \<le> t"
  shows "slotGet t s = (Pending p, False, s)"
  using assms by (auto simp: slotGet_def slotJoinOrStart_def split: option.splits)

lemma slotGet_starts:
  assumes "pending s = None"
      and "case entry s of None \<Rightarrow> True | Some (d, expiresAt) \<Rightarrow> expiresAt \<le> t"
  shows "slotGet t s = (Pending (Suc (fetches s)), True,
                        s\<lparr>pending := Some (Suc (fetches s)), fetches := Suc (fetches s)\<rparr>)"
  using assms by (auto simp: slotGet_def slotJoinOrStart_def Let_def split: option.splits)

lemma slotGet_cached:
  assumes "entry s = Some (d, expiresAt)" and "t < expiresAt"
  shows "slotGet t s = (Cached d, False, s)"
  using assms by (simp add: slotGet_def)

lemma portfolio_callers_join:
  assumes "pending (portfolioSlot st) = Some p"
      and "case entry (portfolioSlot st) of None \<Rightarrow> True | Some (d, expiresAt) \<Rightarrow> expiresAt \<le> t0"
      and "\<forall>t\<in>set ts. t0 \<le> t"
  shows "callers getCachedPortfolio ts st = (replicate (length ts) (Pending p), st)"
  using assms
proof (induction ts)
  case Nil
  then show ?case by simp
next
  case (Cons t ts)
  have "case entry (portfolioSlot st) of None \<Rightarrow> True | Some (d, expiresAt) \<Rightarrow> expiresAt \<le> t"
    using Cons.prems(2,3) by (auto split: option.splits)
  then have "getCachedPortfolio t st = (Pending p, st)"
    using slotGet_joins [OF Cons.prems(1)] by (simp add: getCachedPortfolio_def)
  with Cons show ?case by simp
qed

lemma portfolio_callers_cached:
  assumes "entry (portfolioSlot st) = Some (d, expiresAt)"
      and "\<forall>t\<in>set ts. t < expiresAt"
  shows "callers getCachedPortfolio ts st = (replicate (length ts) (Cached d), st)"
  using assms
proof (induction ts)
  case Nil
  then show ?case by simp
next
  case (Cons t ts)
  have "getCachedPortfolio t st = (Cached d, st)"
    using slotGet_cached [OF Cons.prems(1), of t] Cons.prems(2) by (simp add: getCachedPortfolio_def)
  with Cons show ?case by simp
qed

lemma rates_callers_join:
  assumes "pending (ratesSlot st) = Some p"
      and "case entry (ratesSlot st) of None \<Rightarrow> True | Some (d, expiresAt) \<Rightarrow> expiresAt \<le> t0"
      and "\<forall>t\<in>set ts. t0 \<le> t"
  shows "callers getCachedRates ts st = (replicate (length ts) (Pending p), st)"
  using assms
proof (induction ts)
  case Nil
  then show ?case by simp
next
  case (Cons t ts)
  have "case entry (ratesSlot st) of None \<Rightarrow> True | Some (d, expiresAt) \<Rightarrow> expiresAt \<le> t"
    using Cons.prems(2,3) by (auto split: option.splits)
  then have "getCachedRates t st = (Pending p, st)"
    using slotGet_joins [OF Cons.prems(1)] by (simp add: getCachedRates_def)
  with Cons show ?case by simp
qed

lemma rates_callers_cached:
  assumes "entry (ratesSlot st) = Some (d, expiresAt)"
      and "\<forall>t\<in>set ts. t < expiresAt"
  shows "callers getCachedRates ts st = (replicate (length ts) (Cached d), st)"
  using assms
proof (induction ts)
  case Nil
  then show ?case by simp
next
  case (Cons t ts)
  have "getCachedRates t st = (Cached d, st)"
    using slotGet_cached [OF Cons.prems(1), of t] Cons.prems(2) by (simp add: getCachedRates_def)
  with Cons show ?case by simp
qed


lemma portfolio_flight:
  assumes idle: "pending (portfolioSlot st) = None"
      and stale: "case entry (portfolioSlot st) of None \<Rightarrow> True | Some (d, expiresAt) \<Rightarrow> expiresAt \<le> t0"
      and order: "\<forall>t\<in>set ts. t0 \<le> t"
      and within: "\<forall>t\<in>set ts2. t < tf + CACHE_TTL_MS"
  shows "\<exists>st1. callers getCachedPortfolio (t0 # ts) st
                 = (replicate (Suc (length ts)) (Pending (Suc (fetches (portfolioSlot st)))), st1)
             \<and> calls st1 = calls st @ [PortfolioReq]
             \<and> callers getCachedPortfolio ts2 (portfolioSettled tf (Ok data) st1)
                 = (replicate (length ts2) (Cached data), portfolioSettled tf (Ok data) st1)
             \<and> calls (portfolioSettled tf (Ok data) st1) = calls st @ [PortfolioReq]"
proof -
  let ?n = "Suc (fetches (portfolioSlot st))"
  let ?st0 = "send PortfolioReq (st\<lparr>portfolioSlot := (portfolioSlot st)\<lparr>pending := Some ?n, fetches := ?n\<rparr>\<rparr>)"
  have first: "getCachedPortfolio t0 st = (Pending ?n, ?st0)"
    using slotGet_starts [OF idle stale] by (simp add: getCachedPortfolio_def)
  have p0: "pending (portfolioSlot ?st0) = Some ?n"
    by (simp add: send_def)
  have stale0: "case entry (portfolioSlot ?st0) of None \<Rightarrow> True | Some (d, expiresAt) \<Rightarrow> expiresAt \<le> t0"
    using stale by (simp add: send_def)
  have rest: "callers getCachedPortfolio ts ?st0 = (replicate (length ts) (Pending ?n), ?st0)"
    using portfolio_callers_join [OF p0 stale0 order] .
  have a: "callers getCachedPortfolio (t0 # ts) st = (replicate (Suc (length ts)) (Pending ?n), ?st0)"
    using first rest by simp
  have b: "calls ?st0 = calls st @ [PortfolioReq]"
    by (simp add: send_def)
  let ?st2 = "portfolioSettled tf (Ok data) ?st0"
  have e: "entry (portfolioSlot ?st2) = Some (data, tf + CACHE_TTL_MS)"
    by (simp add: portfolioSettled_def send_def slotSettled_def request_def)
  have c: "callers getCachedPortfolio ts2 ?st2 = (replicate (length ts2) (Cached data), ?st2)"
    using portfolio_callers_cached [OF e within] .
  have d: "calls ?st2 = calls st @ [PortfolioReq]"
    by (simp add: portfolioSettled_def send_def)
  from a b c d show ?thesis by blast
qed

lemma rates_flight:
  assumes idle: "pending (ratesSlot st) = None"
      and stale: "case entry (ratesSlot st) of None \<Rightarrow> True | Some (d, expiresAt) \<Rightarrow> expiresAt \<le> t0"
      and order: "\<forall>t\<in>set ts. t0 \<le> t"
      and within: "\<forall>t\<in>set ts2. t < tf + CACHE_TTL_MS"
  shows "\<exists>st1. callers getCachedRates (t0 # ts) st
                 = (replicate (Suc (length ts)) (Pending (Suc (fetches (ratesSlot st)))), st1)
             \<and> calls st1 = calls st @ [RatesReq]
             \<and> callers getCachedRates ts2 (ratesSettled tf answer st1)
                 = (replicate (length ts2) (Cached (fetchAllRates answer)), ratesSettled tf answer st1)
             \<and> calls (ratesSettled tf answer st1) = calls st @ [RatesReq]"
proof -
  let ?n = "Suc (fetches (ratesSlot st))"
  let ?st0 = "send RatesReq (st\<lparr>ratesSlot := (ratesSlot st)\<lparr>pending := Some ?n, fetches := ?n\<rparr>\<rparr>)"
  have first: "getCachedRates t0 st = (Pending ?n, ?st0)"
    using slotGet_starts [OF idle stale] by (simp add: getCachedRates_def)
  have p0: "pending (ratesSlot ?st0) = Some ?n"
    by (simp add: send_def)
  have stale0: "case entry (ratesSlot ?st0) of None \<Rightarrow> True | Some (d, expiresAt) \<Rightarrow> expiresAt \<le> t0"
    using stale by (simp add: send_def)
  have rest: "callers getCachedRates ts ?st0 = (replicate (length ts) (Pending ?n), ?st0)"
    using rates_callers_join [OF p0 stale0 order] .
  have a: "callers getCachedRates (t0 # ts) st = (replicate (Suc (length ts)) (Pending ?n), ?st0)"
    using first rest by simp
  have b: "calls ?st0 = calls st @ [RatesReq]"
    by (simp add: send_def)
  let ?st2 = "ratesSettled tf answer ?st0"
  have e: "entry (ratesSlot ?st2) = Some (fetchAllRates answer, tf + CACHE_TTL_MS)"
    by (simp add: ratesSettled_def send_def slotSettled_def)
  have c: "callers getCachedRates ts2 ?st2 = (replicate (length ts2) (Cached (fetchAllRates answer)), ?st2)"
    using rates_callers_cached [OF e within] .
  have d: "calls ?st2 = calls st @ [RatesReq]"
    by (simp add: ratesSettled_def send_def)
  from a b c d show ?thesis by blast
qed

text \<open>
  The metadata directory: callers of \<^verbatim>\<open>resolveMetadata\<close> while the directory is
  stale. The first with a missing identifier starts the directory fetch; every later
  caller with a missing identifier waits for that fetch; nobody sends a second
  request, and none is sent in the 60 seconds after the fetch has settled.
\<close>

lemma freshMeta_frame:
  "idToMeta st' = idToMeta st \<Longrightarrow> freshMeta t st' i = freshMeta t st i"
  by (simp add: freshMeta_def)

lemma missingIds_frame:
  "idToMeta st' = idToMeta st \<Longrightarrow> missingIds t st' ids = missingIds t st ids"
  by (simp add: missingIds_def freshMeta_def)

lemma start_joins:
  assumes "metadataPending st" and "\<not> (t - allInstrumentsFetchedAt st < ALL_INSTRUMENTS_CACHE_TTL_MS)"
  shows "resolveMetadataStart t ids st = (missingIds t st ids \<noteq> [], st)"
  using assms by (auto simp: resolveMetadataStart_def missingIds_def Let_def)

lemma start_first:
  assumes "\<not> metadataPending st" and "\<not> (t - allInstrumentsFetchedAt st < ALL_INSTRUMENTS_CACHE_TTL_MS)"
      and "missingIds t st ids \<noteq> []"
  shows "resolveMetadataStart t ids st = (True, send InstrumentsReq (st\<lparr>metadataPending := True\<rparr>))"
  using assms by (auto simp: resolveMetadataStart_def missingIds_def Let_def)

lemma start_fresh:
  assumes "t - allInstrumentsFetchedAt st < ALL_INSTRUMENTS_CACHE_TTL_MS"
  shows "resolveMetadataStart t ids st = (False, st)"
  using assms by (simp add: resolveMetadataStart_def Let_def)

lemma metadata_callers_join:
  assumes "metadataPending st"
      and "\<not> (t0 - allInstrumentsFetchedAt st < ALL_INSTRUMENTS_CACHE_TTL_MS)"
      and "\<forall>p\<in>set later. t0 \<le> fst p"
  shows "metadataCallers later st = (map (\<lambda>p. missingIds (fst p) st (snd p) \<noteq> []) later, st)"
  using assms
proof (induction later)
  case Nil
  then show ?case by simp
next
  case (Cons p later)
  obtain t ids where p: "p = (t, ids)" by (cases p)
  have "\<not> (t - allInstrumentsFetchedAt st < ALL_INSTRUMENTS_CACHE_TTL_MS)"
    using Cons.prems(2,3) p by auto
  then have "resolveMetadataStart t ids st = (missingIds t st ids \<noteq> [], st)"
    using start_joins [OF Cons.prems(1)] by simp
  with Cons p show ?case by simp
qed

lemma metadata_callers_fresh:
  assumes "\<forall>p\<in>set later. fst p - allInstrumentsFetchedAt st < ALL_INSTRUMENTS_CACHE_TTL_MS"
  shows "metadataCallers later st = (replicate (length later) False, st)"
  using assms
proof (induction later)
  case Nil
  then show ?case by simp
next
  case (Cons p later)
  obtain t ids where p: "p = (t, ids)" by (cases p)
  have "resolveMetadataStart t ids st = (False, st)"
    using start_fresh Cons.prems p by simp
  with Cons p show ?case by simp
qed

lemma metadataSettled_frame:
  "allInstrumentsFetchedAt (snd (metadataSettled tf answer st)) = tf
   \<and> \<not> metadataPending (snd (metadataSettled tf answer st))
   \<and> calls (snd (metadataSettled tf answer st)) = calls st"
  by (simp add: metadataSettled_def fetchInstrumentMetadata_def Let_def split: sum.splits prod.splits)

lemma metadata_flight:
  assumes idle: "\<not> metadataPending st"
      and stale: "\<not> (t0 - allInstrumentsFetchedAt st < ALL_INSTRUMENTS_CACHE_TTL_MS)"
      and missing: "missingIds t0 st ids0 \<noteq> []"
      and order: "\<forall>p\<in>set later. t0 \<le> fst p"
      and within: "\<forall>p\<in>set later2. fst p - tf < ALL_INSTRUMENTS_CACHE_TTL_MS"
  shows "\<exists>st1. metadataCallers ((t0, ids0) # later) st
                 = (True # map (\<lambda>p. missingIds (fst p) st (snd p) \<noteq> []) later, st1)
             \<and> calls st1 = calls st @ [InstrumentsReq]
             \<and> metadataCallers later2 (snd (metadataSettled tf answer st1))
                 = (replicate (length later2) False, snd (metadataSettled tf answer st1))
             \<and> calls (snd (metadataSettled tf answer st1)) = calls st @ [InstrumentsReq]"
proof -
  let ?st0 = "send InstrumentsReq (st\<lparr>metadataPending := True\<rparr>)"
  have first: "resolveMetadataStart t0 ids0 st = (True, ?st0)"
    using start_first [OF idle stale missing] .
  have p0: "metadataPending ?st0" by (simp add: send_def)
  have stale0: "\<not> (t0 - allInstrumentsFetchedAt ?st0 < ALL_INSTRUMENTS_CACHE_TTL_MS)"
    using stale by (simp add: send_def)
  have same: "idToMeta ?st0 = idToMeta st" by (simp add: send_def)
  have "metadataCallers later ?st0 = (map (\<lambda>p. missingIds (fst p) ?st0 (snd p) \<noteq> []) later, ?st0)"
    using metadata_callers_join [OF p0 stale0 order] .
  then have rest: "metadataCallers later ?st0 = (map (\<lambda>p. missingIds (fst p) st (snd p) \<noteq> []) later, ?st0)"
    by (simp add: missingIds_frame [OF same])
  have a: "metadataCallers ((t0, ids0) # later) st
             = (True # map (\<lambda>p. missingIds (fst p) st (snd p) \<noteq> []) later, ?st0)"
    using first rest by simp
  have b: "calls ?st0 = calls st @ [InstrumentsReq]" by (simp add: send_def)
  let ?st2 = "snd (metadataSettled tf answer ?st0)"
  have f: "allInstrumentsFetchedAt ?st2 = tf" and d: "calls ?st2 = calls ?st0"
    using metadataSettled_frame [of tf answer ?st0] by simp_all
  have c: "metadataCallers later2 ?st2 = (replicate (length later2) False, ?st2)"
    using metadata_callers_fresh [of later2 ?st2] within f by simp
  show ?thesis
    apply (rule exI [of _ ?st0])
    using a b c d by simp
qed

text \<open>
  While a directory fetch is in flight, the start of \<^verbatim>\<open>resolveMetadata\<close> sends
  nothing.
\<close>

lemma resolveMetadata_joins_pending:
  "metadataPending st \<Longrightarrow> snd (resolveMetadataStart now instrumentIds st) = st"
  by (simp add: resolveMetadataStart_def Let_def)

text \<open>
  A failed portfolio fetch is not cached: the entry is as before, the marker is
  cleared, and the next caller without a fresh entry starts a new fetch.
\<close>

lemma portfolio_failure_not_cached:
  assumes "pending (portfolioSlot st) = Some p" and "request t = Inl e"
      and "case entry (portfolioSlot st) of None \<Rightarrow> True | Some (d, expiresAt) \<Rightarrow> expiresAt \<le> t2"
  shows "entry (portfolioSlot (portfolioSettled now t st)) = entry (portfolioSlot st)
       \<and> pending (portfolioSlot (portfolioSettled now t st)) = None
       \<and> fst (getCachedPortfolio t2 (portfolioSettled now t st)) = Pending (Suc (fetches (portfolioSlot st)))
       \<and> calls (snd (getCachedPortfolio t2 (portfolioSettled now t st))) = calls st @ [PortfolioReq]"
  using assms
  by (auto simp: portfolioSettled_def slotSettled_def getCachedPortfolio_def slotGet_def
        slotJoinOrStart_def send_def Let_def split: option.splits)


subsection \<open>The account\<close>

lemma foldl_sum: "foldl (\<lambda>sum pos. sum + f pos) a xs = a + sum_list (map f xs)"
  by (induction xs arbitrary: a) (auto simp: add.assoc)

lemma market_value_meta: "market_value (parsePosition pos meta rate) = market_value (parsePosition pos None rate)"
  by (simp add: parsePosition_def Let_def)

lemma market_value_parseAll: "map market_value (parseAll meta rateMap raw) = map market_value (parseAll Map.empty rateMap raw)"
  by (auto simp: parseAll_def market_value_meta [of _ "meta _"] split: option.splits)

lemma equity_without_meta:
  "sum_list (map market_value (parseAll meta rateMap raw))
     = sum_list (map market_value (parseAll Map.empty rateMap raw))"
  using market_value_parseAll [of meta rateMap raw] by simp

lemma getAccount_primary:
  assumes "awaitPortfolio br now st = (Inr response, st1)"
  shows "fst (getAccount br now st) =
           Inr (makeAccount (creditOf response)
                  (creditOf response + sum_list (map market_value
                     (parseAll Map.empty
                        (case fst (awaitRates br now
                            (snd (resolveMetadata br now
                               (uniqueIds (List.map_filter getInstrumentId (collectPositions response))) st1))) of
                           Inr m \<Rightarrow> m | Inl err \<Rightarrow> Map.empty)
                        (collectPositions response))))
                  (sum_list (map market_value
                     (parseAll Map.empty
                        (case fst (awaitRates br now
                            (snd (resolveMetadata br now
                               (uniqueIds (List.map_filter getInstrumentId (collectPositions response))) st1))) of
                           Inr m \<Rightarrow> m | Inl err \<Rightarrow> Map.empty)
                        (collectPositions response)))))"
proof -
  let ?raw = "collectPositions response"
  let ?ids = "uniqueIds (List.map_filter getInstrumentId ?raw)"
  obtain meta st2 where m: "resolveMetadata br now ?ids st1 = (meta, st2)"
    by (cases "resolveMetadata br now ?ids st1")
  obtain outcome st3 where r: "awaitRates br now st2 = (outcome, st3)"
    by (cases "awaitRates br now st2")
  let ?rm = "case outcome of Inr m \<Rightarrow> m | Inl err \<Rightarrow> Map.empty"
  have "fst (getAccount br now st) =
          Inr (makeAccount (creditOf response)
                 (creditOf response + sum_list (map market_value (parseAll meta ?rm ?raw)))
                 (sum_list (map market_value (parseAll meta ?rm ?raw))))"
    using assms m r by (simp add: getAccount_def Let_def foldl_sum)
  then show ?thesis
    using m r by (simp add: equity_without_meta [of meta ?rm ?raw])
qed

lemma getAccount_fallback:
  assumes "awaitPortfolio br now st = (Inl err, st1)"
  shows "fst (getAccount br now st) =
           (case request (pnlSummary br) of
              Inl e \<Rightarrow> Inl e
            | Inr summary \<Rightarrow>
                Inr (makeAccount (creditOf summary) (creditOf summary + unrealizedPnLOf summary)
                       (max (creditOf summary + unrealizedPnLOf summary - creditOf summary) 0)))"
  using assms
  by (simp add: getAccount_def Let_def split: sum.splits)


subsection \<open>The rate limiter, one caller at a time\<close>

lemma dropWhile_sorted_filter:
  "sorted xs \<Longrightarrow> dropWhile (\<lambda>x. x < k) xs = filter (\<lambda>x. (k :: int) \<le> x) xs"
proof (induction xs)
  case Nil
  then show ?case by simp
next
  case (Cons a xs)
  show ?case
  proof (cases "a < k")
    case True
    with Cons show ?thesis by simp
  next
    case False
    with Cons.prems have "\<forall>x\<in>set xs. k \<le> x" by auto
    then have "filter (\<lambda>x. k \<le> x) xs = xs" by simp
    with False show ?thesis by simp
  qed
qed

lemma length_filter_mono:
  "(\<And>x. x \<in> set xs \<Longrightarrow> P x \<Longrightarrow> Q x) \<Longrightarrow> length (filter P xs) \<le> length (filter Q xs)"
  by (induction xs) auto

lemma window_after_push:
  assumes bound: "\<forall>T. admittedWithin T adm \<le> nat cap"
      and upto: "\<forall>x\<in>set adm. x \<le> t"
      and room: "length (filter (\<lambda>x. t - windowMs \<le> x) adm) < nat cap"
  shows "admittedWithin T (adm @ [t]) \<le> nat cap"
proof (cases "T - windowMs \<le> t \<and> t \<le> T")
  case False
  then have "admittedWithin T (adm @ [t]) = admittedWithin T adm"
    by (auto simp: admittedWithin_def)
  with bound show ?thesis by simp
next
  case True
  have "length (filter (\<lambda>x. T - windowMs \<le> x \<and> x \<le> T) adm)
          \<le> length (filter (\<lambda>x. t - windowMs \<le> x) adm)"
    using True by (intro length_filter_mono) auto
  with room True show ?thesis
    by (simp add: admittedWithin_def)
qed

lemma runAlone_step:
  assumes inv: "limiterInv cap r" and cap: "1 \<le> cap"
      and step: "runAlone [(t1, t2)] r = Some r'"
  shows "limiterInv cap r'"
proof -
  let ?adm = "admitted r"
  from inv obtain c where
    mx: "maxRequests (limiter r) = cap" and nosleep: "sleepers r = []" and
    srt: "sorted ?adm" and upto: "\<forall>x\<in>set ?adm. x \<le> clock r" and
    c: "c \<le> clock r - windowMs" and ts: "timestamps (limiter r) = filter (\<lambda>x. c \<le> x) ?adm" and
    bound: "\<forall>T. admittedWithin T ?adm \<le> nat cap"
    by (auto simp: limiterInv_def)
  from step have t1: "clock r \<le> t1"
    by (auto simp: limiterStep_def split: if_splits)
  let ?ts1 = "filter (\<lambda>x. t1 - windowMs \<le> x) ?adm"
  have sorted_ts: "sorted (timestamps (limiter r))"
    using ts srt by (simp add: sorted_wrt_filter)
  have "dropWhile (\<lambda>x. x < t1 - windowMs) (timestamps (limiter r))
          = filter (\<lambda>x. t1 - windowMs \<le> x) (timestamps (limiter r))"
    using dropWhile_sorted_filter [OF sorted_ts] .
  also have "\<dots> = ?ts1"
    using c t1 unfolding ts filter_filter
    by (intro filter_cong) auto
  finally have pruned: "timestamps (prune t1 (limiter r)) = ?ts1"
    by (simp add: prune_def)
  have mx1: "maxRequests (prune t1 (limiter r)) = cap"
    using mx by (simp add: prune_def)
  have upto1: "\<forall>x\<in>set ?adm. x \<le> t1" using upto t1 by auto
  have len1: "length ?ts1 \<le> nat cap"
  proof -
    have "?ts1 = filter (\<lambda>x. t1 - windowMs \<le> x \<and> x \<le> t1) ?adm"
      using upto1 by (intro filter_cong) auto
    then have "length ?ts1 = admittedWithin t1 ?adm"
      by (simp add: admittedWithin_def)
    with bound show ?thesis by simp
  qed
  show ?thesis
  proof (cases "int (length ?ts1) \<ge> cap")
    case False
    then have room: "length ?ts1 < nat cap" by linarith
    have r': "r' = r\<lparr>limiter := push t1 (prune t1 (limiter r)), clock := t1, admitted := ?adm @ [t1]\<rparr>"
      using step t1 False pruned mx1 nosleep
      by (auto simp: limiterStep_def acquireBegin_def Let_def split: if_splits list.splits)
    have "\<forall>T. admittedWithin T (?adm @ [t1]) \<le> nat cap"
      using window_after_push [OF bound upto1 room] by blast
    moreover have "sorted (?adm @ [t1])"
      using srt upto1 by (simp add: sorted_append)
    moreover have "timestamps (push t1 (prune t1 (limiter r))) = filter (\<lambda>x. t1 - windowMs \<le> x) (?adm @ [t1])"
      using pruned by (simp add: push_def windowMs_def)
    ultimately show ?thesis
      unfolding r' limiterInv_def using mx1 nosleep upto1
      by (auto simp: push_def intro!: exI [of _ "t1 - windowMs"])
  next
    case True
    with cap have ne: "?ts1 \<noteq> []" by auto
    then obtain oldest later where ol: "?ts1 = oldest # later"
      by (cases ?ts1) auto
    have "oldest \<in> set ?ts1" using ol by simp
    then have old_ge: "t1 - windowMs \<le> oldest" and old_in: "oldest \<in> set ?adm" by auto
    then have wait: "oldest + windowMs - t1 + 50 > 0" by simp
    let ?r1 = "r\<lparr>limiter := prune t1 (limiter r), clock := t1,
                  sleepers := sleepers r @ [t1 + (oldest + windowMs - t1 + 50)]\<rparr>"
    have s1: "limiterStep (Call t1) r = Some ?r1"
      using t1 True pruned mx1 ol wait
      by (simp add: limiterStep_def acquireBegin_def Let_def)
    then have s2: "limiterStep (Wake t2) ?r1 = Some r'"
      using step nosleep by (simp split: option.splits)
    then have t2: "t1 \<le> t2" and due: "oldest + windowMs + 50 \<le> t2"
      using nosleep by (auto simp: limiterStep_def split: if_splits)
    have r': "r' = ?r1\<lparr>limiter := acquireResume t2 (prune t1 (limiter r)), clock := t2,
                         sleepers := [], admitted := ?adm @ [t2]\<rparr>"
      using s2 nosleep by (auto simp: limiterStep_def split: if_splits)
    let ?ts2 = "filter (\<lambda>x. t2 - windowMs \<le> x) ?adm"
    have sorted1: "sorted ?ts1" using srt by (simp add: sorted_wrt_filter)
    have "dropWhile (\<lambda>x. x < t2 - windowMs) ?ts1 = filter (\<lambda>x. t2 - windowMs \<le> x) ?ts1"
      using dropWhile_sorted_filter [OF sorted1] .
    also have "\<dots> = ?ts2"
      using t2 unfolding filter_filter by (intro filter_cong) auto
    finally have pruned2: "timestamps (prune t2 (prune t1 (limiter r))) = ?ts2"
      using pruned by (simp add: prune_def)
    have "?ts2 = filter (\<lambda>x. t2 - windowMs \<le> x) ?ts1"
      using t2 unfolding filter_filter by (intro filter_cong) auto
    moreover have "\<not> (t2 - windowMs \<le> oldest)" using due by simp
    ultimately have "length ?ts2 < length ?ts1"
      using length_filter_less [of oldest ?ts1 "\<lambda>x. t2 - windowMs \<le> x"] \<open>oldest \<in> set ?ts1\<close>
      by simp
    with len1 have room: "length ?ts2 < nat cap" by simp
    have upto2: "\<forall>x\<in>set ?adm. x \<le> t2" using upto1 t2 by auto
    have "\<forall>T. admittedWithin T (?adm @ [t2]) \<le> nat cap"
      using window_after_push [OF bound upto2 room] by blast
    moreover have "sorted (?adm @ [t2])"
      using srt upto2 by (simp add: sorted_append)
    moreover have "timestamps (acquireResume t2 (prune t1 (limiter r)))
                     = filter (\<lambda>x. t2 - windowMs \<le> x) (?adm @ [t2])"
      using pruned2 by (simp add: acquireResume_def push_def windowMs_def)
    moreover have "maxRequests (acquireResume t2 (prune t1 (limiter r))) = cap"
      using mx by (simp add: acquireResume_def push_def prune_def)
    ultimately show ?thesis
      unfolding r' limiterInv_def using upto2
      by (auto intro!: exI [of _ "t2 - windowMs"])
  qed
qed

lemma runAlone_split:
  "runAlone (p # rest) r = (case runAlone [p] r of None \<Rightarrow> None | Some r1 \<Rightarrow> runAlone rest r1)"
  by (cases p) (auto split: option.splits list.splits)

lemma runAlone_inv:
  assumes "1 \<le> cap"
  shows "limiterInv cap r \<Longrightarrow> runAlone ps r = Some r' \<Longrightarrow> limiterInv cap r'"
proof (induction ps arbitrary: r)
  case Nil
  then show ?case by simp
next
  case (Cons p ps)
  obtain t1 t2 where p: "p = (t1, t2)" by (cases p)
  from Cons.prems(2) obtain r1 where r1: "runAlone [p] r = Some r1" and rest: "runAlone ps r1 = Some r'"
    by (subst (asm) runAlone_split) (auto split: option.splits)
  have "limiterInv cap r1"
    using runAlone_step [OF Cons.prems(1) assms] r1 p by simp
  from Cons.IH [OF this rest] show ?case .
qed

lemma newLimiter_inv: "0 \<le> cap \<Longrightarrow> limiterInv cap (newLimiter cap)"
  by (auto simp: limiterInv_def newLimiter_def admittedWithin_def windowMs_def)

lemma admittedIn_le_within: "admittedIn T xs \<le> admittedWithin T xs"
  unfolding admittedIn_def admittedWithin_def
  by (intro length_filter_mono) auto

text \<open>
  With a cap of at least 1 and callers that come one at a time, no window of 60
  seconds, half-open or closed, ever holds more admitted timestamps than the cap.
\<close>

lemma sequential_acquire_within_cap:
  assumes "1 \<le> cap" and "runAlone ps (newLimiter cap) = Some r"
  shows "admittedIn T (admitted r) \<le> nat cap \<and> admittedWithin T (admitted r) \<le> nat cap"
proof -
  have "limiterInv cap r"
    using runAlone_inv [OF assms(1) newLimiter_inv assms(2)] assms(1) by simp
  then have "admittedWithin T (admitted r) \<le> nat cap"
    by (simp add: limiterInv_def)
  with admittedIn_le_within [of T "admitted r"] show ?thesis by simp
qed

subsection \<open>Approval tokens\<close>

lemma find_map_used:
  "find (\<lambda>a. approval_token a = token) xs = Some a \<Longrightarrow>
   find (\<lambda>a. approval_token a = token)
        (map (\<lambda>b. if approval_token b = token then b\<lparr>used_at := Some now\<rparr> else b) xs)
     = Some (a\<lparr>used_at := Some now\<rparr>)"
  by (induction xs) (auto split: if_splits)

lemma present_used:
  assumes "find (\<lambda>a. approval_token a = token) (approvals db) = Some a" and "used_at a \<noteq> None"
  shows "presentToken now2 token db = (Inl EXPIRED_APPROVAL_TOKEN, db)"
  using assms by (simp add: presentToken_def)

lemma find_map_other:
  "token2 \<noteq> token \<Longrightarrow>
   find (\<lambda>a. approval_token a = token)
        (map (\<lambda>b. if approval_token b = token2 then b\<lparr>used_at := Some now\<rparr> else b) xs)
     = find (\<lambda>a. approval_token a = token) xs"
  by (induction xs) auto

lemma present_keeps_used:
  assumes "find (\<lambda>a. approval_token a = token) (approvals db) = Some a" and "used_at a \<noteq> None"
  shows "find (\<lambda>a. approval_token a = token) (approvals (snd (presentToken now2 token2 db))) = Some a
       \<and> count_list (submitted (snd (presentToken now2 token2 db))) token = count_list (submitted db) token"
proof (cases "token2 = token")
  case True
  then show ?thesis using present_used [OF assms] assms by simp
next
  case False
  then show ?thesis
    using assms
    by (auto simp: presentToken_def find_map_other [OF False] split: option.splits)
qed

lemma presentAll_keeps_used:
  assumes "find (\<lambda>a. approval_token a = token) (approvals db) = Some a" and "used_at a \<noteq> None"
  shows "find (\<lambda>a. approval_token a = token) (approvals (presentAll later db)) = Some a
       \<and> count_list (submitted (presentAll later db)) token = count_list (submitted db) token"
  using assms
proof (induction later arbitrary: db)
  case Nil
  then show ?case by simp
next
  case (Cons p later)
  obtain now2 token2 where p: "p = (now2, token2)" by (cases p)
  from present_keeps_used [OF Cons.prems, of now2 token2]
  have f: "find (\<lambda>a. approval_token a = token) (approvals (snd (presentToken now2 token2 db))) = Some a"
    and c: "count_list (submitted (snd (presentToken now2 token2 db))) token = count_list (submitted db) token"
    by simp_all
  from Cons.IH [OF f Cons.prems(2)] c p show ?case by simp
qed


subsection \<open>The claims\<close>

text \<open>
  Claim C1, as stated, fails: \<^verbatim>\<open>createOrder\<close> never reads the risk state. With
  the kill switch active, a market order for one unit of \<^verbatim>\<open>AAPL\<close> on a new session
  is resolved by a search request, submitted to the broker and accepted.
\<close>

theorem createOrder_kill_switch_counterexample:
  "kill_switch_active (risk (newSession (riskWith True)))
   \<and> fst (createOrder (testBroker Failed Failed) 0 (marketOrder ''AAPL'' (Some 1) None Buy)
                       (newSession (riskWith True)))
       = Inr \<lparr>ord_id = Some 555, ord_symbol = ''AAPL'', ord_asset_id = 999, ord_qty = 1,
              ord_type = Market, ord_side = Buy, ord_status = Accepted\<rparr>
   \<and> calls (snd (createOrder (testBroker Failed Failed) 0 (marketOrder ''AAPL'' (Some 1) None Buy)
                         (newSession (riskWith True))))
       = [SearchReq ''AAPL'', OpenOrderReq 999 True 1]"
  by (simp add: eval_defs)

text \<open>
  Claim C1, amended. \<^verbatim>\<open>createOrder\<close> does not consult the risk state: a request
  for anything but a market order is refused with \<^verbatim>\<open>NOT_SUPPORTED\<close> before any
  network call, the session unchanged; no call ever fails with
  \<^verbatim>\<open>KILL_SWITCH_ACTIVE\<close>; and the result, the requests sent and the caches are
  the same under any risk state.
\<close>

theorem createOrder_independent_of_risk:
  "(op_type params \<noteq> Market \<longrightarrow>
      createOrder br now params st = (Inl (MakoraError NOT_SUPPORTED), st))
   \<and> fst (createOrder br now params st) \<noteq> Inl (MakoraError KILL_SWITCH_ACTIVE)
   \<and> createOrder br now params (st\<lparr>risk := r\<rparr>)
       = (fst (createOrder br now params st), (snd (createOrder br now params st))\<lparr>risk := r\<rparr>)"
  using createOrder_not_kill [of br now params st]
    createOrder_risk [where br=br and now=now and params=params and st=st and r=r]
  by (simp add: createOrder_def)

theorem createOrder_independent_of_risk_witness:
  "op_type (limitOrder ''AAPL'' 1 Buy) \<noteq> Market
   \<and> createOrder (testBroker Failed Failed) 0 (limitOrder ''AAPL'' 1 Buy) (newSession (riskWith True))
       = (Inl (MakoraError NOT_SUPPORTED), newSession (riskWith True))"
  using createOrder_independent_of_risk
          [of "limitOrder ''AAPL'' 1 Buy" "testBroker Failed Failed" 0 "newSession (riskWith True)"]
  by (simp add: limitOrder_def)

text \<open>
  Claim C2 fails on the code when two callers sleep at once: after the timer,
  \<^verbatim>\<open>acquire\<close> prunes and takes a slot without looking at the cap again. With the
  default cap of 55, one admission at time 0 and 54 at time 1000 fill the window; two
  callers at time 2000 both sleep until 60050, and both are admitted then. The 60
  seconds that end at 60050 hold 56 admitted timestamps.
\<close>

theorem acquire_burst_exceeds_cap:
  "case runLimiter burst (newLimiter 55) of
     None \<Rightarrow> False
   | Some r \<Rightarrow> maxRequests (limiter r) = 55
              \<and> sleepers r = []
              \<and> length (admitted r) = 57
              \<and> admittedIn 60050 (admitted r) = 56
              \<and> length (timestamps (limiter r)) = 56"
  unfolding burst_def
  by (simp add: limiterStep_def acquireBegin_def acquireResume_def prune_def push_def
        newLimiter_def windowMs_def admittedIn_def Let_def eval_nat_numeral)

text \<open>
  Claim C3, as stated, fails for the symbol-to-identifier mapping, which is one of
  the cached resources (30 minutes): \<^verbatim>\<open>resolveInstrumentId\<close> keeps no marker of a
  search in flight. On a new session, two callers for \<^verbatim>\<open>AAPL\<close> each miss the cache
  and each hand their own search request to the client before either is answered;
  both searches are then answered with instrument 999, the second one while the
  mapping stored by the first is fresh.
\<close>

theorem resolveInstrumentId_concurrent_counterexample:
  "symbolToId (newSession (riskWith False)) ''AAPL'' = None
   \<and> resolveInstrumentIdStart 0 ''AAPL'' (newSession (riskWith False))
       = (Searching ''AAPL'' [], send (SearchReq ''AAPL'') (newSession (riskWith False)))
   \<and> resolveInstrumentIdStart 0 ''AAPL'' (send (SearchReq ''AAPL'') (newSession (riskWith False)))
       = (Searching ''AAPL'' [],
          send (SearchReq ''AAPL'') (send (SearchReq ''AAPL'') (newSession (riskWith False))))
   \<and> calls (send (SearchReq ''AAPL'') (send (SearchReq ''AAPL'') (newSession (riskWith False))))
       = [SearchReq ''AAPL'', SearchReq ''AAPL'']
   \<and> fst (searchSettled (testBroker Failed Failed) 5 ''AAPL'' []
            (send (SearchReq ''AAPL'') (send (SearchReq ''AAPL'') (newSession (riskWith False)))))
       = Done (Inr 999)
   \<and> fst (searchSettled (testBroker Failed Failed) 6 ''AAPL'' []
            (snd (searchSettled (testBroker Failed Failed) 5 ''AAPL'' []
              (send (SearchReq ''AAPL'') (send (SearchReq ''AAPL'') (newSession (riskWith False)))))))
       = Done (Inr 999)
   \<and> symbolToId (snd (searchSettled (testBroker Failed Failed) 5 ''AAPL'' []
            (send (SearchReq ''AAPL'') (send (SearchReq ''AAPL'') (newSession (riskWith False))))))
         ''AAPL'' = Some (999, 5)
   \<and> isFresh 6 5"
  by (simp add: eval_defs resolveInstrumentIdStart_def searchNext_def searchSettled_def)

text \<open>
  Claim C3, amended: the claim holds for the three resources that have a marker of
  the fetch in flight. Portfolio and rates: take a cache with no fresh entry at time
  \<open>t0\<close> and nothing in flight, and callers at \<open>t0\<close> and at the later times \<open>ts\<close> before
  the fetch settles: the first caller starts the one fetch, every caller gets the
  same pending promise, and the transport receives one request. When that fetch
  delivers at time \<open>tf\<close>, the callers at the times \<open>ts2\<close> inside the TTL get the value
  delivered and the transport has still received that one request only. Metadata
  directory: with the directory stale at \<open>u0\<close> and nothing in flight, a first caller
  of \<^verbatim>\<open>resolveMetadata\<close> with a missing identifier starts the one directory fetch,
  every later caller waits for it exactly when it has a missing identifier, and one
  request is sent; after the fetch has settled at \<open>uf\<close>, no caller in the next 60
  seconds waits or sends.
\<close>

theorem concurrent_callers_share_one_fetch:
  assumes "\<forall>t\<in>set ts. t0 \<le> t"
      and "\<forall>t\<in>set ts2. t < tf + CACHE_TTL_MS"
  shows "(pending (portfolioSlot st) = None
          \<and> (case entry (portfolioSlot st) of None \<Rightarrow> True | Some (d, expiresAt) \<Rightarrow> expiresAt \<le> t0) \<longrightarrow>
          (\<exists>st1. callers getCachedPortfolio (t0 # ts) st
                   = (replicate (Suc (length ts)) (Pending (Suc (fetches (portfolioSlot st)))), st1)
               \<and> calls st1 = calls st @ [PortfolioReq]
               \<and> callers getCachedPortfolio ts2 (portfolioSettled tf (Ok data) st1)
                   = (replicate (length ts2) (Cached data), portfolioSettled tf (Ok data) st1)
               \<and> calls (portfolioSettled tf (Ok data) st1) = calls st @ [PortfolioReq]))
       \<and> (pending (ratesSlot st) = None
          \<and> (case entry (ratesSlot st) of None \<Rightarrow> True | Some (d, expiresAt) \<Rightarrow> expiresAt \<le> t0) \<longrightarrow>
          (\<exists>st1. callers getCachedRates (t0 # ts) st
                   = (replicate (Suc (length ts)) (Pending (Suc (fetches (ratesSlot st)))), st1)
               \<and> calls st1 = calls st @ [RatesReq]
               \<and> callers getCachedRates ts2 (ratesSettled tf answer st1)
                   = (replicate (length ts2) (Cached (fetchAllRates answer)), ratesSettled tf answer st1)
               \<and> calls (ratesSettled tf answer st1) = calls st @ [RatesReq]))
       \<and> (\<not> metadataPending st
          \<and> \<not> (u0 - allInstrumentsFetchedAt st < ALL_INSTRUMENTS_CACHE_TTL_MS)
          \<and> missingIds u0 st ids0 \<noteq> []
          \<and> (\<forall>p\<in>set later. u0 \<le> fst p)
          \<and> (\<forall>p\<in>set later2. fst p - uf < ALL_INSTRUMENTS_CACHE_TTL_MS) \<longrightarrow>
          (\<exists>st1. metadataCallers ((u0, ids0) # later) st
                   = (True # map (\<lambda>p. missingIds (fst p) st (snd p) \<noteq> []) later, st1)
               \<and> calls st1 = calls st @ [InstrumentsReq]
               \<and> metadataCallers later2 (snd (metadataSettled uf directory st1))
                   = (replicate (length later2) False, snd (metadataSettled uf directory st1))
               \<and> calls (snd (metadataSettled uf directory st1)) = calls st @ [InstrumentsReq]))"
  using portfolio_flight [OF _ _ assms, of st data] rates_flight [OF _ _ assms, of st answer]
    metadata_flight [of st u0 ids0 later later2 uf directory]
  by blast

theorem concurrent_callers_share_one_fetch_witness:
  "(0 :: int) \<le> 0 \<and> (0 :: int) \<le> 40
   \<and> 250 < 250 + CACHE_TTL_MS \<and> 15249 < 250 + CACHE_TTL_MS
   \<and> pending (portfolioSlot (newSession (riskWith False))) = None
   \<and> entry (portfolioSlot (newSession (riskWith False))) = None
   \<and> (\<exists>st1. callers getCachedPortfolio [0, 0, 40] (newSession (riskWith False))
               = ([Pending 1, Pending 1, Pending 1], st1)
            \<and> calls st1 = [PortfolioReq]
            \<and> callers getCachedPortfolio [250, 15249] (portfolioSettled 250 (Ok examplePortfolio) st1)
               = ([Cached examplePortfolio, Cached examplePortfolio],
                  portfolioSettled 250 (Ok examplePortfolio) st1)
            \<and> calls (portfolioSettled 250 (Ok examplePortfolio) st1) = [PortfolioReq])
   \<and> pending (ratesSlot (newSession (riskWith False))) = None
   \<and> entry (ratesSlot (newSession (riskWith False))) = None
   \<and> (\<exists>st1. callers getCachedRates [0, 0, 40] (newSession (riskWith False))
               = ([Pending 1, Pending 1, Pending 1], st1)
            \<and> calls st1 = [RatesReq]
            \<and> callers getCachedRates [250, 15249] (ratesSettled 250 (Ok None) st1)
               = ([Cached (fetchAllRates (Ok None)), Cached (fetchAllRates (Ok None))],
                  ratesSettled 250 (Ok None) st1)
            \<and> calls (ratesSettled 250 (Ok None) st1) = [RatesReq])
   \<and> \<not> metadataPending (newSession (riskWith False))
   \<and> \<not> (60000 - allInstrumentsFetchedAt (newSession (riskWith False)) < ALL_INSTRUMENTS_CACHE_TTL_MS)
   \<and> missingIds 60000 (newSession (riskWith False)) [999] = [999]
   \<and> (\<exists>st1. metadataCallers [(60000, [999]), (60000, [999, 5]), (60010, [])]
                 (newSession (riskWith False))
               = ([True, True, False], st1)
            \<and> calls st1 = [InstrumentsReq]
            \<and> metadataCallers [(60200, [999]), (120199, [7])]
                 (snd (metadataSettled 60200 (Ok (Some [])) st1))
               = ([False, False], snd (metadataSettled 60200 (Ok (Some [])) st1))
            \<and> calls (snd (metadataSettled 60200 (Ok (Some [])) st1)) = [InstrumentsReq])"
proof -
  have h1: "\<forall>t\<in>set [0, 40 :: int]. 0 \<le> t" by simp
  have h2: "\<forall>t\<in>set [250, 15249 :: int]. t < 250 + CACHE_TTL_MS"
    by (simp add: CACHE_TTL_MS_def)
  have h3: "pending (portfolioSlot (newSession (riskWith False))) = None"
    and h4: "entry (portfolioSlot (newSession (riskWith False))) = None"
    and h5: "fetches (portfolioSlot (newSession (riskWith False))) = 0"
    and h6: "calls (newSession (riskWith False)) = []"
    and h7: "pending (ratesSlot (newSession (riskWith False))) = None"
    and h8: "entry (ratesSlot (newSession (riskWith False))) = None"
    and h9: "fetches (ratesSlot (newSession (riskWith False))) = 0"
    by (simp_all add: newSession_def emptySlot_def)
  have m1: "\<not> metadataPending (newSession (riskWith False))"
    and m2: "\<not> (60000 - allInstrumentsFetchedAt (newSession (riskWith False)) < ALL_INSTRUMENTS_CACHE_TTL_MS)"
    and m3: "missingIds 60000 (newSession (riskWith False)) [999] = [999]"
    and m4: "missingIds 60000 (newSession (riskWith False)) [999, 5] = [999, 5]"
    and m5: "missingIds 60010 (newSession (riskWith False)) [] = []"
    by (simp_all add: newSession_def ALL_INSTRUMENTS_CACHE_TTL_MS_def missingIds_def
          freshMeta_def uniqueIds_def setAdd_def)
  have m6: "\<forall>p\<in>set [(60000, [999, 5]), (60010 :: int, [] :: int list)]. 60000 \<le> fst p"
    by simp
  have m7: "\<forall>p\<in>set [(60200, [999]), (120199 :: int, [7 :: int])].
              fst p - 60200 < ALL_INSTRUMENTS_CACHE_TTL_MS"
    by (simp add: ALL_INSTRUMENTS_CACHE_TTL_MS_def)
  show ?thesis
    using concurrent_callers_share_one_fetch
            [OF h1 h2, where st = "newSession (riskWith False)" and data = examplePortfolio
               and answer = "Ok None" and ?u0.0 = 60000 and ?ids0.0 = "[999]"
               and later = "[(60000, [999, 5]), (60010, [])]"
               and ?later2.0 = "[(60200, [999]), (120199, [7])]" and uf = 60200
               and directory = "Ok (Some [])"]
      h1 h2 h3 h4 h5 h6 h7 h8 h9 m1 m2 m3 m4 m5 m6 m7
    by (simp add: numeral_2_eq_2)
qed

text \<open>
  Claim C4, on the approval workflow as the specification words it. A presentation
  succeeds only on an approval that is unused and not yet expired; it stamps
  \<^verbatim>\<open>usedAt\<close> with the time of the presentation and submits once. Whatever
  presentations follow (of this or of other tokens, at any times), the stamp stays as
  it is, the broker has received one submission for the token, and presenting the
  token again fails with \<^verbatim>\<open>EXPIRED_APPROVAL_TOKEN\<close> and changes nothing. Presenting
  a used or expired token fails with one of the two token errors and changes nothing.
\<close>

theorem approval_token_single_use:
  "(presentToken now token db = (Inr params, db1) \<longrightarrow>
      (\<exists>a. find (\<lambda>a. approval_token a = token) (approvals db) = Some a
          \<and> used_at a = None \<and> now < expires_at a \<and> params = order_params a
          \<and> submitted db1 = submitted db @ [token]
          \<and> find (\<lambda>a. approval_token a = token) (approvals (presentAll later db1))
              = Some (a\<lparr>used_at := Some now\<rparr>)
          \<and> count_list (submitted (presentAll later db1)) token = Suc (count_list (submitted db) token)
          \<and> presentToken now2 token (presentAll later db1)
              = (Inl EXPIRED_APPROVAL_TOKEN, presentAll later db1)))
   \<and> (find (\<lambda>a. approval_token a = token) (approvals db) = Some a
        \<and> (used_at a \<noteq> None \<or> expires_at a \<le> now) \<longrightarrow>
        (fst (presentToken now token db) = Inl INVALID_APPROVAL_TOKEN
           \<or> fst (presentToken now token db) = Inl EXPIRED_APPROVAL_TOKEN)
        \<and> snd (presentToken now token db) = db)"
proof -
  have second: "find (\<lambda>a. approval_token a = token) (approvals db) = Some a
        \<and> (used_at a \<noteq> None \<or> expires_at a \<le> now) \<longrightarrow>
        (fst (presentToken now token db) = Inl INVALID_APPROVAL_TOKEN
           \<or> fst (presentToken now token db) = Inl EXPIRED_APPROVAL_TOKEN)
        \<and> snd (presentToken now token db) = db"
    by (auto simp: presentToken_def)
  have first: "presentToken now token db = (Inr params, db1) \<longrightarrow>
      (\<exists>a. find (\<lambda>a. approval_token a = token) (approvals db) = Some a
          \<and> used_at a = None \<and> now < expires_at a \<and> params = order_params a
          \<and> submitted db1 = submitted db @ [token]
          \<and> find (\<lambda>a. approval_token a = token) (approvals (presentAll later db1))
              = Some (a\<lparr>used_at := Some now\<rparr>)
          \<and> count_list (submitted (presentAll later db1)) token = Suc (count_list (submitted db) token)
          \<and> presentToken now2 token (presentAll later db1)
              = (Inl EXPIRED_APPROVAL_TOKEN, presentAll later db1))"
  proof
    assume ok: "presentToken now token db = (Inr params, db1)"
    then obtain b where b: "find (\<lambda>a. approval_token a = token) (approvals db) = Some b"
      and fresh: "used_at b = None" "now < expires_at b" and par: "params = order_params b"
      and db1: "db1 = db\<lparr>approvals := map (\<lambda>c. if approval_token c = token
                                            then c\<lparr>used_at := Some now\<rparr> else c) (approvals db),
                   submitted := submitted db @ [token]\<rparr>"
      by (auto simp: presentToken_def split: option.splits if_splits)
    have f1: "find (\<lambda>a. approval_token a = token) (approvals db1) = Some (b\<lparr>used_at := Some now\<rparr>)"
      using db1 find_map_used [OF b] by simp
    have u1: "used_at (b\<lparr>used_at := Some now\<rparr>) \<noteq> None" by simp
    from presentAll_keeps_used [OF f1 u1, of later]
    have f2: "find (\<lambda>a. approval_token a = token) (approvals (presentAll later db1)) = Some (b\<lparr>used_at := Some now\<rparr>)"
      and c2: "count_list (submitted (presentAll later db1)) token = count_list (submitted db1) token"
      by simp_all
    have c1: "count_list (submitted db1) token = Suc (count_list (submitted db) token)"
      using db1 by simp
    have again: "presentToken now2 token (presentAll later db1) = (Inl EXPIRED_APPROVAL_TOKEN, presentAll later db1)"
      using present_used [OF f2 u1] .
    show "\<exists>a. find (\<lambda>a. approval_token a = token) (approvals db) = Some a
          \<and> used_at a = None \<and> now < expires_at a \<and> params = order_params a
          \<and> submitted db1 = submitted db @ [token]
          \<and> find (\<lambda>a. approval_token a = token) (approvals (presentAll later db1))
              = Some (a\<lparr>used_at := Some now\<rparr>)
          \<and> count_list (submitted (presentAll later db1)) token = Suc (count_list (submitted db) token)
          \<and> presentToken now2 token (presentAll later db1)
              = (Inl EXPIRED_APPROVAL_TOKEN, presentAll later db1)"
      using b fresh par db1 f2 c2 c1 again by auto
  qed
  from first second show ?thesis by blast
qed

theorem approval_token_single_use_witness:
  "presentToken 10 ''tok-1'' exampleStore
     = (Inr \<lparr>op_symbol = ''AAPL'', op_qty = Some 3, op_notional = None,
             op_side = Buy, op_type = Market\<rparr>,
        snd (presentToken 10 ''tok-1'' exampleStore))
   \<and> submitted (snd (presentToken 10 ''tok-1'' exampleStore)) = [''tok-1'']
   \<and> count_list (submitted (presentAll [(20, ''tok-1''), (30, ''tok-2'')]
                               (snd (presentToken 10 ''tok-1'' exampleStore)))) ''tok-1'' = 1
   \<and> fst (presentToken 40 ''tok-1'' (presentAll [(20, ''tok-1''), (30, ''tok-2'')]
                               (snd (presentToken 10 ''tok-1'' exampleStore))))
       = Inl EXPIRED_APPROVAL_TOKEN
   \<and> fst (presentToken 2000 ''tok-1'' exampleStore) = Inl INVALID_APPROVAL_TOKEN
   \<and> snd (presentToken 2000 ''tok-1'' exampleStore) = exampleStore"
proof -
  let ?p = "\<lparr>op_symbol = ''AAPL'', op_qty = Some 3, op_notional = None,
             op_side = Buy, op_type = Market\<rparr>"
  let ?a = "\<lparr>approval_id = ''a1'', approval_token = ''tok-1'', order_params = ?p,
             expires_at = 1000, used_at = None\<rparr>"
  let ?db1 = "snd (presentToken 10 ''tok-1'' exampleStore)"
  have ok: "presentToken 10 ''tok-1'' exampleStore = (Inr ?p, ?db1)"
    by (simp add: presentToken_def exampleStore_def)
  have found: "find (\<lambda>a. approval_token a = ''tok-1'') (approvals exampleStore) = Some ?a"
    by (simp add: exampleStore_def)
  have expired: "used_at ?a \<noteq> None \<or> expires_at ?a \<le> 2000"
    by simp
  have none: "submitted exampleStore = []"
    by (simp add: exampleStore_def)
  have late: "fst (presentToken 2000 ''tok-1'' exampleStore) = Inl INVALID_APPROVAL_TOKEN"
    by (simp add: presentToken_def exampleStore_def)
  show ?thesis
    using approval_token_single_use
            [of 10 "''tok-1''" exampleStore ?p ?db1 "[(20, ''tok-1''), (30, ''tok-2'')]" 40 ?a]
      approval_token_single_use
            [of 2000 "''tok-1''" exampleStore ?p ?db1 "[]" 40 ?a]
      ok found expired none late
    by auto
qed

text \<open>
  Claim C5 holds for the portfolio cache and fails for the rates cache, where
  \<^verbatim>\<open>fetchAllRates\<close> swallows the failure of its request: a rates request answered
  with status 500 at time 100 leaves the empty rate map cached until 15100, and the
  caller at time 1000 is given that empty map without a new request.
\<close>

theorem getCachedRates_caches_failed_fetch:
  "fst (getCachedRates 0 (newSession (riskWith False))) = Pending 1
   \<and> calls (snd (getCachedRates 0 (newSession (riskWith False)))) = [RatesReq]
   \<and> pending (ratesSlot (ratesSettled 100 (Status 500)
                (snd (getCachedRates 0 (newSession (riskWith False)))))) = None
   \<and> entry (ratesSlot (ratesSettled 100 (Status 500)
                (snd (getCachedRates 0 (newSession (riskWith False))))))
        = Some (Map.empty, 15100)
   \<and> fst (getCachedRates 1000 (ratesSettled 100 (Status 500)
                (snd (getCachedRates 0 (newSession (riskWith False))))))
        = Cached Map.empty
   \<and> calls (snd (getCachedRates 1000 (ratesSettled 100 (Status 500)
                (snd (getCachedRates 0 (newSession (riskWith False)))))))
        = [RatesReq]"
  by (simp add: eval_defs)

text \<open>
  Claim C6, as stated, fails: when the portfolio request and the profit/loss summary
  request both fail, \<^verbatim>\<open>getAccount\<close> fails with the error of the second.
\<close>

theorem getAccount_both_sources_fail_counterexample:
  "request (portfolio (testBroker (Status 500) (Status 503))) = Inl (MakoraError PROVIDER_ERROR)
   \<and> request (pnlSummary (testBroker (Status 500) (Status 503))) = Inl (MakoraError PROVIDER_ERROR)
   \<and> fst (getAccount (testBroker (Status 500) (Status 503)) 0 (newSession (riskWith False)))
       = Inl (MakoraError PROVIDER_ERROR)
   \<and> calls (snd (getAccount (testBroker (Status 500) (Status 503)) 0 (newSession (riskWith False))))
       = [PortfolioReq, PnlReq]"
  by (simp add: eval_defs account_defs)

text \<open>
  Claim C6, amended. When the portfolio is obtained (from the cache or the broker),
  \<^verbatim>\<open>getAccount\<close> returns an account whose cash is the credit and whose equity is the
  credit plus the market values of the collected, deduplicated positions, priced with
  the rates then obtained. When the portfolio fails and the profit/loss summary is
  obtained, it returns an account whose equity is the credit plus the unrealized
  profit of the summary. When both fail, it fails with the error of the summary
  request.
\<close>

theorem getAccount_two_sources:
  "case awaitPortfolio br now st of
     (Inr response, st1) \<Rightarrow>
       (let raw = collectPositions response;
            st2 = snd (resolveMetadata br now (uniqueIds (List.map_filter getInstrumentId raw)) st1);
            rateMap = (case fst (awaitRates br now st2) of Inr m \<Rightarrow> m | Inl err \<Rightarrow> Map.empty)
        in \<exists>acct. fst (getAccount br now st) = Inr acct
              \<and> cash acct = creditOf response
              \<and> equity acct = creditOf response
                    + sum_list (map market_value (parseAll Map.empty rateMap raw)))
   | (Inl err, st1) \<Rightarrow>
       (case request (pnlSummary br) of
          Inr summary \<Rightarrow>
            (\<exists>acct. fst (getAccount br now st) = Inr acct
               \<and> cash acct = creditOf summary
               \<and> equity acct = creditOf summary + unrealizedPnLOf summary)
        | Inl e \<Rightarrow> fst (getAccount br now st) = Inl e)"
proof (cases "awaitPortfolio br now st")
  case (Pair outcome st1)
  show ?thesis
  proof (cases outcome)
    case (Inl err)
    with Pair show ?thesis
      using getAccount_fallback [of br now st err st1]
      by (simp add: makeAccount_def split: sum.splits)
  next
    case (Inr response)
    with Pair show ?thesis
      using getAccount_primary [of br now st response st1]
      by (simp add: makeAccount_def Let_def)
  qed
qed

theorem getAccount_two_sources_witness:
  "fst (getAccount (testBroker (Ok examplePortfolio) Failed) 0 (newSession (riskWith False)))
     = Inr (makeAccount 500 1706 1206)
   \<and> fst (getAccount (testBroker (Status 500) (Ok examplePortfolio)) 0 (newSession (riskWith False)))
     = Inr (makeAccount 500 626 126)"
  using getAccount_two_sources [of "testBroker (Ok examplePortfolio) Failed" 0 "newSession (riskWith False)"]
    getAccount_two_sources [of "testBroker (Status 500) (Ok examplePortfolio)" 0 "newSession (riskWith False)"]
  by (simp add: eval_defs account_defs)

text \<open>
  Claim C7. \<^verbatim>\<open>closePosition\<close> deducts \<open>min qty total\<close> when a quantity is given
  (whatever the percentage), and otherwise, when a percentage is given,
  \<open>percentage / 100 * total\<close> clamped from above by \<open>total\<close> and from below by \<open>0\<close>,
  which lies in \<open>[0, total]\<close> for a position of non-negative size. On a position of
  10 units: 50 percent gives 5, a quantity of 3 gives 3, a quantity of 20 gives 10.
\<close>

theorem closePosition_unitsToDeduct:
  "unitsToDeduct position (Some q) pct = Some (min q (qty position))
   \<and> unitsToDeduct position None (Some p)
       = Some (max (min (p / 100 * qty position) (qty position)) 0)
   \<and> (0 \<le> qty position \<longrightarrow>
        (\<exists>u. unitsToDeduct position None (Some p) = Some u \<and> 0 \<le> u \<and> u \<le> qty position))
   \<and> unitsToDeduct (position\<lparr>qty := 10\<rparr>) None (Some 50) = Some 5
   \<and> unitsToDeduct (position\<lparr>qty := 10\<rparr>) (Some 3) None = Some 3
   \<and> unitsToDeduct (position\<lparr>qty := 10\<rparr>) (Some 20) None = Some 10"
  by (simp add: unitsToDeduct_def Let_def)

theorem closePosition_unitsToDeduct_witness:
  "0 \<le> qty examplePosition
   \<and> (\<exists>u. unitsToDeduct examplePosition None (Some 25) = Some u
          \<and> 0 \<le> u \<and> u \<le> qty examplePosition)"
  using closePosition_unitsToDeduct [of examplePosition 0 None 25]
  by (simp add: examplePosition_def)

text \<open>
  Claim C8. For a market order with a notional amount \<open>n\<close> and no quantity, whose
  symbol resolves to instrument \<open>i\<close> and with \<open>rateMap\<close> the rates then obtained: the
  order request carries \<open>n / ask\<close> units for a buy and \<open>n / bid\<close> units for a sell when
  that price is present and positive; when the ask (for a buy) or the bid (for a sell)
  is absent, the last-execution price takes its place; and when the instrument has no
  rate, or the price so chosen is absent or not positive, the call fails with
  \<^verbatim>\<open>PROVIDER_ERROR\<close> and no order request is sent.
\<close>

theorem createOrder_notional_units:
  assumes "op_type params = Market" and "op_qty params = None"
      and "op_notional params = Some n"
      and "resolveInstrumentId br now (op_symbol params) st = (Inr i, st1)"
      and "awaitRates br now st1 = (Inr rateMap, st2)"
  shows "(rateMap i = Some r \<and> op_side params = Buy \<and> ask r = Some a \<and> 0 < a \<longrightarrow>
            calls (snd (createOrder br now params st)) = calls st2 @ [OpenOrderReq i True (n / a)])
       \<and> (rateMap i = Some r \<and> op_side params = Sell \<and> bid r = Some b \<and> 0 < b \<longrightarrow>
            calls (snd (createOrder br now params st)) = calls st2 @ [OpenOrderReq i False (n / b)])
       \<and> (rateMap i = Some r \<and> lastExecution r = Some l \<and> 0 < l
            \<and> (op_side params = Buy \<and> ask r = None \<or> op_side params = Sell \<and> bid r = None) \<longrightarrow>
            calls (snd (createOrder br now params st))
              = calls st2 @ [OpenOrderReq i (op_side params = Buy) (n / l)])
       \<and> (rateMap i = None \<longrightarrow>
            createOrder br now params st = (Inl (MakoraError PROVIDER_ERROR), st2))
       \<and> (referencePrice (op_side params) (rateMap i) = None
            \<or> (\<exists>p. referencePrice (op_side params) (rateMap i) = Some p \<and> p \<le> 0) \<longrightarrow>
            createOrder br now params st = (Inl (MakoraError PROVIDER_ERROR), st2))"
  unfolding createOrder_notional_core [OF assms]
  by (auto simp: unitsAtPrice_def referencePrice_def nullish_def send_def
           split: sum.splits option.splits order_side.splits)

text \<open>
  The example of the specification: a notional of 100 against an ask of 101 sends an
  order for \<open>100 / 101\<close> units, which is 0.990099 to six decimal places.
\<close>

theorem createOrder_notional_units_witness:
  "op_type (marketOrder ''AAPL'' None (Some 100) Buy) = Market
   \<and> op_qty (marketOrder ''AAPL'' None (Some 100) Buy) = None
   \<and> op_notional (marketOrder ''AAPL'' None (Some 100) Buy) = Some 100
   \<and> fst (resolveInstrumentId (testBroker Failed Failed) 0 ''AAPL'' (newSession (riskWith False)))
       = Inr 999
   \<and> calls (snd (createOrder (testBroker Failed Failed) 0
                   (marketOrder ''AAPL'' None (Some 100) Buy) (newSession (riskWith False))))
       = [SearchReq ''AAPL'', RatesReq, OpenOrderReq 999 True (100 / 101)]
   \<and> \<bar>100 / 101 - 990099 / 1000000\<bar> < (1 / 1000000 :: real)"
proof -
  let ?p = "marketOrder ''AAPL'' None (Some 100) Buy"
  let ?st = "newSession (riskWith False)"
  let ?st1 = "snd (resolveInstrumentId (testBroker Failed Failed) 0 ''AAPL'' ?st)"
  let ?st2 = "snd (awaitRates (testBroker Failed Failed) 0 ?st1)"
  let ?r = "\<lparr>rate_instrumentId = Some 999, rate_instrumentID = None, ask = Some 101,
            bid = Some 100, lastExecution = Some (201 / 2)\<rparr>"
  have p: "op_type ?p = Market" "op_qty ?p = None" "op_notional ?p = Some 100"
    by (simp_all add: marketOrder_def)
  have i: "fst (resolveInstrumentId (testBroker Failed Failed) 0 ''AAPL'' ?st) = Inr 999"
    by (simp add: eval_defs)
  then have res: "resolveInstrumentId (testBroker Failed Failed) 0 (op_symbol ?p) ?st = (Inr 999, ?st1)"
    by (simp add: marketOrder_def prod_eq_iff)
  have "fst (awaitRates (testBroker Failed Failed) 0 ?st1) = Inr (fetchAllRates (rates (testBroker Failed Failed)))"
    by (simp add: eval_defs)
  then have rated: "awaitRates (testBroker Failed Failed) 0 ?st1
      = (Inr (fetchAllRates (rates (testBroker Failed Failed))), ?st2)"
    by (simp add: prod_eq_iff)
  have rate: "fetchAllRates (rates (testBroker Failed Failed)) 999 = Some ?r"
    by (simp add: eval_defs)
  have st2: "calls ?st2 = [SearchReq ''AAPL'', RatesReq]"
    by (simp add: eval_defs)
  have "calls (snd (createOrder (testBroker Failed Failed) 0 ?p ?st))
          = calls ?st2 @ [OpenOrderReq 999 True (100 / 101)]"
    using createOrder_notional_units [OF p res rated, of ?r 101] rate
    by (simp add: marketOrder_def)
  with p i st2 show ?thesis by simp
qed

text \<open>
  Claim C9, as stated, fails: the same match for the base candidate \<^verbatim>\<open>BTC\<close> is not
  enough, since \<^verbatim>\<open>BTC/USD\<close> itself is tried first and only for the pair notation.
  With a broker that knows \<^verbatim>\<open>BTC/USD\<close> as instrument 7 and \<^verbatim>\<open>BTC\<close> as instrument
  100000, the two spellings resolve to different instruments.
\<close>

theorem resolveInstrumentId_pair_counterexample:
  "searchExactSymbol pairBroker ''BTC'' = Inr (Some (100000, ''BTC''))
   \<and> fst (resolveInstrumentId pairBroker 0 ''BTC/USD'' (newSession (riskWith False))) = Inr 7
   \<and> fst (resolveInstrumentId pairBroker 0 ''BTCUSD'' (newSession (riskWith False))) = Inr 100000"
  by (simp add: eval_defs)

text \<open>
  Claim C9, amended. The candidates of \<^verbatim>\<open>BTC/USD\<close> are \<^verbatim>\<open>BTC/USD\<close>, \<^verbatim>\<open>BTCUSD\<close>,
  \<^verbatim>\<open>BTC\<close>, and those of \<^verbatim>\<open>BTCUSD\<close> are \<^verbatim>\<open>BTCUSD\<close>, \<^verbatim>\<open>BTC\<close>, \<^verbatim>\<open>BTCUSD/USD\<close>.
  When neither spelling is freshly cached, the search has no match for \<^verbatim>\<open>BTC/USD\<close>
  itself and has a match for the base candidate \<^verbatim>\<open>BTC\<close>, the two calls have the
  same result, from the same session or one after the other; the result is an
  instrument identifier unless the search for \<^verbatim>\<open>BTCUSD\<close> fails with an error.
\<close>

theorem resolveInstrumentId_pair_notations:
  assumes "searchExactSymbol br ''BTC/USD'' = Inr None"
      and "searchExactSymbol br ''BTC'' = Inr (Some (i, found))"
      and "case symbolToId st ''BTC/USD'' of None \<Rightarrow> True | Some (j, upd) \<Rightarrow> \<not> isFresh now upd"
      and "case symbolToId st ''BTCUSD'' of None \<Rightarrow> True | Some (j, upd) \<Rightarrow> \<not> isFresh now upd"
      and "now \<le> now2"
  shows "buildSymbolCandidates ''BTC/USD'' = [''BTC/USD'', ''BTCUSD'', ''BTC'']
       \<and> buildSymbolCandidates ''BTCUSD'' = [''BTCUSD'', ''BTC'', ''BTCUSD/USD'']
       \<and> fst (resolveInstrumentId br now ''BTC/USD'' st) = fst (resolveInstrumentId br now ''BTCUSD'' st)
       \<and> fst (resolveInstrumentId br now2 ''BTCUSD'' (snd (resolveInstrumentId br now ''BTC/USD'' st)))
           = fst (resolveInstrumentId br now ''BTC/USD'' st)
       \<and> ((\<forall>e. searchExactSymbol br ''BTCUSD'' \<noteq> Inl e) \<longrightarrow>
            (\<exists>j. fst (resolveInstrumentId br now ''BTC/USD'' st) = Inr j))"
proof -
  have i0: "i \<noteq> 0"
    using assms(2) searchExactSymbol_nonzero by blast
  have a: "resolveInstrumentId br now ''BTC/USD'' st
             = searchCandidates br now [''BTC/USD'', ''BTCUSD'', ''BTC''] st"
    using resolve_stale [where st=st and s="''BTC/USD''" and now=now and br=br]
      assms(3) candidates_BTC normalized_BTC by simp
  have "(\<forall>e. searchExactSymbol br ''BTCUSD'' \<noteq> Inl e) \<longrightarrow>
            (\<exists>j. fst (resolveInstrumentId br now ''BTC/USD'' st) = Inr j)"
    unfolding a using assms(1,2) i0
    by (auto simp: Let_def split: sum.splits option.splits)
  then show ?thesis
    using candidates_BTC pair_notations_same_state [OF assms(1-4)]
      pair_notations_in_sequence [OF assms]
    by simp
qed

theorem resolveInstrumentId_pair_notations_witness:
  "searchExactSymbol baseBroker ''BTC/USD'' = Inr None
   \<and> searchExactSymbol baseBroker ''BTC'' = Inr (Some (100000, ''BTC''))
   \<and> symbolToId (newSession (riskWith False)) ''BTC/USD'' = None
   \<and> symbolToId (newSession (riskWith False)) ''BTCUSD'' = None
   \<and> (0 :: int) \<le> 1000
   \<and> fst (resolveInstrumentId baseBroker 0 ''BTC/USD'' (newSession (riskWith False))) = Inr 100000
   \<and> fst (resolveInstrumentId baseBroker 0 ''BTCUSD'' (newSession (riskWith False))) = Inr 100000
   \<and> fst (resolveInstrumentId baseBroker 1000 ''BTCUSD''
            (snd (resolveInstrumentId baseBroker 0 ''BTC/USD'' (newSession (riskWith False)))))
       = Inr 100000"
proof -
  have h1: "searchExactSymbol baseBroker ''BTC/USD'' = Inr None"
    by (simp add: eval_defs)
  have h2: "searchExactSymbol baseBroker ''BTC'' = Inr (Some (100000, ''BTC''))"
    by (simp add: eval_defs)
  have h3: "case symbolToId (newSession (riskWith False)) ''BTC/USD'' of
              None \<Rightarrow> True | Some (j, upd) \<Rightarrow> \<not> isFresh 0 upd"
    by (simp add: newSession_def)
  have h4: "case symbolToId (newSession (riskWith False)) ''BTCUSD'' of
              None \<Rightarrow> True | Some (j, upd) \<Rightarrow> \<not> isFresh 0 upd"
    by (simp add: newSession_def)
  have h5: "(0 :: int) \<le> 1000" by simp
  have v: "fst (resolveInstrumentId baseBroker 0 ''BTC/USD'' (newSession (riskWith False))) = Inr 100000"
    by (simp add: eval_defs)
  show ?thesis
    using resolveInstrumentId_pair_notations [OF h1 h2 h3 h4 h5] h1 h2 v
    by (simp add: newSession_def)
qed

text \<open>
  Claim C10. When \<^verbatim>\<open>resolveInstrumentId(s)\<close> succeeds after searching (it sent the
  requests \<open>reqs\<close>) and the candidate \<open>c\<close> of the last, matching search is not the
  normalized input, the mapping is stored under \<open>c\<close> and the entry of the normalized
  input is left as it was; a repetition of the call at any later time \<open>now2\<close>, also
  within the 30 minutes of the mapping, misses the cache and sends the same search
  requests again.
\<close>

theorem resolveInstrumentId_alias_not_cached:
  assumes res: "resolveInstrumentId br now s st = (Inr i, st')"
      and reqs: "calls st' = calls st @ reqs" "reqs \<noteq> []" "last reqs = SearchReq c"
      and other: "c \<noteq> toUpperCase (trim s)"
      and later: "now \<le> now2"
  shows "symbolToId st' (toUpperCase (trim s)) = symbolToId st (toUpperCase (trim s))
       \<and> symbolToId st' c = Some (i, now)
       \<and> (\<exists>st''. resolveInstrumentId br now2 s st' = (Inr i, st'')
                \<and> calls st'' = calls st' @ reqs)"
proof -
  let ?n = "toUpperCase (trim s)"
  let ?cs = "buildSymbolCandidates ?n"
  have stale: "case symbolToId st ?n of None \<Rightarrow> True | Some (j, upd) \<Rightarrow> \<not> isFresh now upd"
    using res reqs(1,2) by (auto simp: resolveInstrumentId_def Let_def split: option.splits if_splits)
  then have search: "searchCandidates br now ?cs st = (Inr i, st')"
    using res by (auto simp: resolveInstrumentId_def Let_def split: option.splits if_splits)
  from searchCandidates_Inr [OF search] obtain pre c' post found where
    cs: "?cs = pre @ c' # post" and
    st': "st' = storeMapping now c' i found (st\<lparr>calls := calls st @ map SearchReq (pre @ [c'])\<rparr>)" and
    rep: "\<forall>st2 now2. searchCandidates br now2 ?cs st2
             = (Inr i, storeMapping now2 c' i found (st2\<lparr>calls := calls st2 @ map SearchReq (pre @ [c'])\<rparr>))"
    by blast
  have calls': "calls st' = calls st @ map SearchReq (pre @ [c'])"
    using st' by (simp add: storeMapping_def Let_def)
  then have reqs_eq: "reqs = map SearchReq (pre @ [c'])"
    using reqs(1) by simp
  then have c': "c' = c" using reqs(3) by simp
  have "c \<in> set ?cs" using cs c' by simp
  then have fixed: "toUpperCase c = c"
    using candidates_fixed [of ?n c] by (simp add: toUpperCase_idem)
  have map': "symbolToId st' = (symbolToId st)(c \<mapsto> (i, now))"
    using st' c' fixed by (simp add: storeMapping_def Let_def)
  have unchanged: "symbolToId st' ?n = symbolToId st ?n"
    using map' other by simp
  have stale2: "case symbolToId st' ?n of None \<Rightarrow> True | Some (j, upd) \<Rightarrow> \<not> isFresh now2 upd"
    using stale unchanged later by (auto simp: isFresh_def split: option.splits)
  have "resolveInstrumentId br now2 s st' = searchCandidates br now2 ?cs st'"
    using stale2 by (auto simp: resolveInstrumentId_def Let_def split: option.splits)
  also have "\<dots> = (Inr i, storeMapping now2 c' i found (st'\<lparr>calls := calls st' @ map SearchReq (pre @ [c'])\<rparr>))"
    using rep by blast
  finally have again: "resolveInstrumentId br now2 s st'
      = (Inr i, storeMapping now2 c' i found (st'\<lparr>calls := calls st' @ map SearchReq (pre @ [c'])\<rparr>))" .
  have "calls (storeMapping now2 c' i found (st'\<lparr>calls := calls st' @ map SearchReq (pre @ [c'])\<rparr>))
          = calls st' @ reqs"
    using reqs_eq by (simp add: storeMapping_def Let_def)
  with again unchanged map' show ?thesis by simp
qed

theorem resolveInstrumentId_alias_not_cached_witness:
  "fst (resolveInstrumentId baseBroker 0 ''btc/usd'' (newSession (riskWith False))) = Inr 100000
   \<and> calls (snd (resolveInstrumentId baseBroker 0 ''btc/usd'' (newSession (riskWith False))))
       = [SearchReq ''BTC/USD'', SearchReq ''BTCUSD'', SearchReq ''BTC'']
   \<and> ''BTC'' \<noteq> toUpperCase (trim ''btc/usd'')
   \<and> (0 :: int) \<le> 1000 \<and> isFresh 1000 0
   \<and> symbolToId (snd (resolveInstrumentId baseBroker 0 ''btc/usd'' (newSession (riskWith False))))
        ''BTC/USD'' = None
   \<and> symbolToId (snd (resolveInstrumentId baseBroker 0 ''btc/usd'' (newSession (riskWith False))))
        ''BTC'' = Some (100000, 0)
   \<and> (\<exists>st''. resolveInstrumentId baseBroker 1000 ''btc/usd''
                 (snd (resolveInstrumentId baseBroker 0 ''btc/usd'' (newSession (riskWith False))))
               = (Inr 100000, st'')
            \<and> calls st'' = [SearchReq ''BTC/USD'', SearchReq ''BTCUSD'', SearchReq ''BTC'',
                             SearchReq ''BTC/USD'', SearchReq ''BTCUSD'', SearchReq ''BTC''])"
proof -
  let ?st = "newSession (riskWith False)"
  let ?st' = "snd (resolveInstrumentId baseBroker 0 ''btc/usd'' ?st)"
  let ?reqs = "[SearchReq ''BTC/USD'', SearchReq ''BTCUSD'', SearchReq ''BTC'']"
  have v: "fst (resolveInstrumentId baseBroker 0 ''btc/usd'' ?st) = Inr 100000"
    by (simp add: eval_defs)
  then have h1: "resolveInstrumentId baseBroker 0 ''btc/usd'' ?st = (Inr 100000, ?st')"
    by (simp add: prod_eq_iff)
  have c: "calls ?st' = ?reqs"
    by (simp add: eval_defs)
  then have h2: "calls ?st' = calls ?st @ ?reqs"
    by (simp add: newSession_def)
  have h3: "?reqs \<noteq> []" and h4: "last ?reqs = SearchReq ''BTC''"
    by simp_all
  have n: "toUpperCase (trim ''btc/usd'') = ''BTC/USD''"
    by (simp add: eval_defs)
  then have h5: "''BTC'' \<noteq> toUpperCase (trim ''btc/usd'')"
    by simp
  have h6: "(0 :: int) \<le> 1000" by simp
  have f: "isFresh 1000 0"
    by (simp add: isFresh_def ttlMs_def)
  show ?thesis
    using resolveInstrumentId_alias_not_cached [OF h1 h2 h3 h4 h5 h6] v c n h5 f
    by (simp add: newSession_def)
qed

end
